theory Spec2Isabelle
  imports Main "HOL-Library.Word"
begin

unbundle bit_operations_syntax

section \<open>Channel: framing of commands (Channel.cc)\<close>

text \<open>
  A shallow embedding of \<^verbatim>\<open>Channel::send\<close> and \<^verbatim>\<open>Channel::recv\<close>.
  A channel is modelled with its bufferevent present: the input and output
  evbuffers are byte lists, and the two cipher objects are optional, as the
  \<^verbatim>\<open>crypt_in\<close> and \<^verbatim>\<open>crypt_out\<close> pointers are.
  Writing the terminal log (\<^verbatim>\<open>print_contents\<close>) changes no state and is left out.
\<close>

type_synonym byte = "8 word"

text \<open>
  The enumerators of \<^verbatim>\<open>GameVersion\<close> that Channel.cc names. Every one of them
  has a case in the switch of \<^verbatim>\<open>Channel::send\<close>, so its default branch is not
  reached for any of them.
\<close>

datatype GameVersion = DC | PC | PATCH | GC | BB

text \<open>The exceptions the two functions raise, with their messages.\<close>

datatype error =
    out_of_range string
  | logic_error string
  | runtime_error string
  | length_error

text \<open>
  Modelled from the spec: the cipher classes are only declared in
  PSOEncryption.hh and their code is absent. Following section 4.2, a cipher
  produces an indefinite keystream that is XORed onto the data; encrypt and
  decrypt are the same operation, and the keystream position moves by the
  number of octets processed exactly when \<^verbatim>\<open>advance\<close> is true.
\<close>

record PSOEncryption =
  stream :: "nat \<Rightarrow> byte"
  offset :: nat

definition keystream_xor :: "PSOEncryption \<Rightarrow> nat \<Rightarrow> byte list \<Rightarrow> byte list" where
  "keystream_xor e k d = map (\<lambda>(i, b). b XOR stream e i) (enumerate k d)"

definition crypt :: "PSOEncryption \<Rightarrow> byte list \<Rightarrow> bool \<Rightarrow> byte list \<times> PSOEncryption" where
  "crypt e d advance =
     (keystream_xor e (offset e) d,
      if advance then e\<lparr>offset := offset e + length d\<rparr> else e)"

definition encrypt :: "PSOEncryption \<Rightarrow> byte list \<Rightarrow> bool \<Rightarrow> byte list \<times> PSOEncryption" where
  "encrypt = crypt"

definition decrypt :: "PSOEncryption \<Rightarrow> byte list \<Rightarrow> bool \<Rightarrow> byte list \<times> PSOEncryption" where
  "decrypt = crypt"

record Channel =
  version :: GameVersion
  crypt_in :: "PSOEncryption option"
  crypt_out :: "PSOEncryption option"
  input_buf :: "byte list"
  output_buf :: "byte list"

record Message =
  command :: "16 word"
  flag :: "32 word"
  data :: "byte list"

subsection \<open>Command headers\<close>

text \<open>
  The header structs are declared in PSOProtocol.hh, which is absent. Their
  sizes are the ones \<^verbatim>\<open>Channel::recv\<close> uses (8 octets on BB, 4 otherwise); the
  field widths are the ones the assignments in \<^verbatim>\<open>Channel::send\<close> and section 6
  of the specification give: a 16-bit size everywhere, an 8-bit command and
  flag in the 4-octet headers, a 16-bit command and a 32-bit flag on BB.
  All fields are little-endian. No property below depends on the order of the
  fields.
\<close>

definition sizeof_header :: "GameVersion \<Rightarrow> nat" where
  "sizeof_header v = (if v = BB then 8 else 4)"

definition le16 :: "16 word \<Rightarrow> byte list" where
  "le16 w = [ucast w, ucast (drop_bit 8 w)]"

definition le32 :: "32 word \<Rightarrow> byte list" where
  "le32 w = [ucast w, ucast (drop_bit 8 w), ucast (drop_bit 16 w), ucast (drop_bit 24 w)]"

definition rd16 :: "byte list \<Rightarrow> nat \<Rightarrow> 16 word" where
  "rd16 bs i = ucast (bs ! i) OR push_bit 8 (ucast (bs ! (i + 1)))"

definition rd32 :: "byte list \<Rightarrow> nat \<Rightarrow> 32 word" where
  "rd32 bs i = ucast (bs ! i) OR push_bit 8 (ucast (bs ! (i + 1)))
     OR push_bit 16 (ucast (bs ! (i + 2))) OR push_bit 24 (ucast (bs ! (i + 3)))"

text \<open>
  \<^verbatim>\<open>header.command = cmd; header.flag = flag; header.size = n\<close> followed by
  the copy of the struct into the frame. The size is stored in a 16-bit field,
  the command and the flag are narrowed to the width of their fields.
\<close>

definition header_bytes :: "GameVersion \<Rightarrow> 16 word \<Rightarrow> 32 word \<Rightarrow> nat \<Rightarrow> byte list" where
  "header_bytes v cmd flg n =
     (case v of
        BB \<Rightarrow> le16 (of_nat n) @ le16 cmd @ le32 flg
      | PC \<Rightarrow> le16 (of_nat n) @ [ucast cmd, ucast flg]
      | PATCH \<Rightarrow> le16 (of_nat n) @ [ucast cmd, ucast flg]
      | DC \<Rightarrow> [ucast cmd, ucast flg] @ le16 (of_nat n)
      | GC \<Rightarrow> [ucast cmd, ucast flg] @ le16 (of_nat n))"

text \<open>The accessors \<^verbatim>\<open>PSOCommandHeader::size\<close>, \<^verbatim>\<open>command\<close> and \<^verbatim>\<open>flag\<close>.\<close>

definition header_size_field :: "GameVersion \<Rightarrow> byte list \<Rightarrow> nat" where
  "header_size_field v h =
     (case v of
        BB \<Rightarrow> unat (rd16 h 0)
      | PC \<Rightarrow> unat (rd16 h 0)
      | PATCH \<Rightarrow> unat (rd16 h 0)
      | DC \<Rightarrow> unat (rd16 h 2)
      | GC \<Rightarrow> unat (rd16 h 2))"

definition header_command :: "GameVersion \<Rightarrow> byte list \<Rightarrow> 16 word" where
  "header_command v h =
     (case v of
        BB \<Rightarrow> rd16 h 2
      | PC \<Rightarrow> ucast (h ! 2)
      | PATCH \<Rightarrow> ucast (h ! 2)
      | DC \<Rightarrow> ucast (h ! 0)
      | GC \<Rightarrow> ucast (h ! 0))"

definition header_flag :: "GameVersion \<Rightarrow> byte list \<Rightarrow> 32 word" where
  "header_flag v h =
     (case v of
        BB \<Rightarrow> rd32 h 4
      | PC \<Rightarrow> ucast (h ! 3)
      | PATCH \<Rightarrow> ucast (h ! 3)
      | DC \<Rightarrow> ucast (h ! 1)
      | GC \<Rightarrow> ucast (h ! 1))"

subsection \<open>Arithmetic on \<^verbatim>\<open>size_t\<close>\<close>

text \<open>
  Sizes are 64-bit unsigned values; sums wrap around. \<^verbatim>\<open>x & ~3\<close> and
  \<^verbatim>\<open>x & ~7\<close> clear the low bits of \<open>x\<close>.
\<close>

definition size_t_add :: "nat \<Rightarrow> nat \<Rightarrow> nat" where
  "size_t_add a b = (a + b) mod 2 ^ 64"

definition clear_low :: "nat \<Rightarrow> nat \<Rightarrow> nat" where
  "clear_low k x = x - x mod k"

text \<open>\<^verbatim>\<open>std::string::resize(n, '\0')\<close>\<close>

definition resize :: "byte list \<Rightarrow> nat \<Rightarrow> byte list" where
  "resize s n = take n s @ replicate (n - length s) 0"

subsection \<open>\<^verbatim>\<open>Channel::send\<close>\<close>

text \<open>
  The two sizes the switch computes: \<^verbatim>\<open>send_data_size\<close>, the number of
  octets that will be transmitted, and \<^verbatim>\<open>logical_size\<close>, the value stored in
  the header. \<open>enc\<close> is \<^verbatim>\<open>this->crypt_out.get() != nullptr\<close> and \<open>n\<close> is the
  payload size.
\<close>

definition send_data_size :: "GameVersion \<Rightarrow> bool \<Rightarrow> nat \<Rightarrow> nat" where
  "send_data_size v enc n =
     (if v = BB then
        (if enc then clear_low 8 (size_t_add (size_t_add 8 n) 7) else size_t_add 8 n)
      else
        (if enc then clear_low 4 (size_t_add (size_t_add 4 n) 3) else size_t_add 4 n))"

definition logical_size :: "GameVersion \<Rightarrow> bool \<Rightarrow> nat \<Rightarrow> nat" where
  "logical_size v enc n =
     (if v = BB then clear_low 4 (size_t_add (size_t_add 8 n) 3)
      else send_data_size v enc n)"

text \<open>
  The frame before encryption: the header, then (when the frame is longer
  than the header) the payload, resized to \<^verbatim>\<open>send_data_size\<close> with zero
  octets.
\<close>

definition send_frame :: "GameVersion \<Rightarrow> bool \<Rightarrow> 16 word \<Rightarrow> 32 word \<Rightarrow> byte list \<Rightarrow> byte list" where
  "send_frame v enc cmd flg payload =
     (let h = header_bytes v cmd flg (logical_size v enc (length payload));
          n = send_data_size v enc (length payload)
      in if length h < n then resize (h @ payload) n else h)"

definition send :: "Channel \<Rightarrow> 16 word \<Rightarrow> 32 word \<Rightarrow> byte list \<Rightarrow> (error + unit) \<times> Channel" where
  "send ch cmd flg payload =
     (let enc = (crypt_out ch \<noteq> None);
          n = send_data_size (version ch) enc (length payload)
      in if n > 0x7C00 then (Inl (runtime_error ''outbound command too large''), ch)
         else
           (let frame = send_frame (version ch) enc cmd flg payload
            in case crypt_out ch of
                 None \<Rightarrow> (Inr (), ch\<lparr>output_buf := output_buf ch @ frame\<rparr>)
               | Some e \<Rightarrow>
                   (let (ct, e') = encrypt e frame True
                    in (Inr (), ch\<lparr>crypt_out := Some e', output_buf := output_buf ch @ ct\<rparr>))))"

subsection \<open>\<^verbatim>\<open>Channel::recv\<close>\<close>

text \<open>\<^verbatim>\<open>evbuffer_remove\<close>: takes up to \<open>n\<close> octets off the front of the buffer.\<close>

definition evbuffer_remove :: "byte list \<Rightarrow> nat \<Rightarrow> byte list \<times> byte list" where
  "evbuffer_remove buf n = (take n buf, drop n buf)"

text \<open>
  The header as \<^verbatim>\<open>recv\<close> first sees it: copied out of the buffer without
  removing it, and decrypted with \<^verbatim>\<open>advance = false\<close>.
\<close>

definition peek_header :: "Channel \<Rightarrow> byte list" where
  "peek_header ch =
     (let h = take (sizeof_header (version ch)) (input_buf ch)
      in case crypt_in ch of None \<Rightarrow> h | Some e \<Rightarrow> fst (decrypt e h False))"

definition command_logical_size :: "Channel \<Rightarrow> nat" where
  "command_logical_size ch = header_size_field (version ch) (peek_header ch)"

definition command_physical_size :: "Channel \<Rightarrow> nat" where
  "command_physical_size ch =
     (if crypt_in ch \<noteq> None \<and> version ch = BB
      then clear_low 8 (size_t_add (command_logical_size ch) 7)
      else command_logical_size ch)"

text \<open>
  Decrypting with the inbound cipher when there is one; the cipher object is
  replaced by the state the call leaves it in.
\<close>

definition decrypt_in :: "Channel \<Rightarrow> byte list \<Rightarrow> bool \<Rightarrow> byte list \<times> Channel" where
  "decrypt_in ch d advance =
     (case crypt_in ch of
        None \<Rightarrow> (d, ch)
      | Some e \<Rightarrow> (let (p, e') = decrypt e d advance in (p, ch\<lparr>crypt_in := Some e'\<rparr>)))"

text \<open>
  The sizes of the two strings are computed in \<^verbatim>\<open>size_t\<close>: when the size
  read from the header is smaller than the header itself the subtraction
  wraps around to a value above the largest string, and constructing or
  resizing the string raises \<^verbatim>\<open>std::length_error\<close>, after the octets taken so
  far have left the buffer.
\<close>

definition recv :: "Channel \<Rightarrow> (error + Message) \<times> Channel" where
  "recv ch =
     (let hs = sizeof_header (version ch) in
      if length (take hs (input_buf ch)) < hs
      then (Inl (out_of_range ''no command available''), ch)
      else
        (let (header, ch0) = decrypt_in ch (take hs (input_buf ch)) False;
             logical = header_size_field (version ch) header;
             physical = (if crypt_in ch0 \<noteq> None \<and> version ch = BB
                         then clear_low 8 (size_t_add logical 7) else logical)
         in if length (input_buf ch0) < physical
            then (Inl (out_of_range ''no command available''), ch0)
            else
              (let (header_raw, buf1) = evbuffer_remove (input_buf ch0) hs;
                   ch1 = ch0\<lparr>input_buf := buf1\<rparr>
               in if length header_raw < hs
                  then (Inl (logic_error ''enough bytes available, but could not remove them''), ch1)
                  else
                    (let (header_data, ch2) = decrypt_in ch1 header_raw True
                     in if physical < hs then (Inl length_error, ch2)
                        else
                          (let (body_raw, buf2) = evbuffer_remove (input_buf ch2) (physical - hs);
                               ch3 = ch2\<lparr>input_buf := buf2\<rparr>
                           in if length body_raw < physical - hs
                              then (Inl (logic_error ''enough bytes available, but could not remove them''), ch3)
                              else
                                (let (command_data, ch4) = decrypt_in ch3 body_raw True
                                 in if logical < hs then (Inl length_error, ch4)
                                    else (Inr \<lparr>command = header_command (version ch) header,
                                               flag = header_flag (version ch) header,
                                               data = resize command_data (logical - hs)\<rparr>, ch4)))))))"

text \<open>
  Two readings of the inbound side that the statements about \<^verbatim>\<open>recv\<close> use:
  the plaintext of the first \<open>n\<close> octets of the input buffer, each octet
  decrypted at its own keystream position counted from the current one, and
  the inbound cipher after \<open>n\<close> octets have been decrypted with advance.
\<close>

definition input_plain :: "Channel \<Rightarrow> nat \<Rightarrow> byte list" where
  "input_plain ch n =
     (case crypt_in ch of
        None \<Rightarrow> take n (input_buf ch)
      | Some e \<Rightarrow> keystream_xor e (offset e) (take n (input_buf ch)))"

definition advance_in :: "Channel \<Rightarrow> nat \<Rightarrow> PSOEncryption option" where
  "advance_in ch n = map_option (\<lambda>e. e\<lparr>offset := offset e + n\<rparr>) (crypt_in ch)"

text \<open>Channels and ciphers used to evaluate the functions on concrete inputs.\<close>

definition example_cipher :: PSOEncryption where
  "example_cipher = \<lparr>stream = (\<lambda>i. 0xFF), offset = 3\<rparr>"

definition example_channel :: "GameVersion \<Rightarrow> PSOEncryption option \<Rightarrow> byte list \<Rightarrow> Channel" where
  "example_channel v e buf =
     \<lparr>version = v, crypt_in = e, crypt_out = e, input_buf = buf, output_buf = []\<rparr>"

definition example_input :: "byte list" where
  "example_input = [0xF3, 0xFF, 0x9F, 0xFF, 0xFF, 0xFF, 0xFF, 0xFF,
                    0xFE, 0xFD, 0xFC, 0xFB, 0xFF, 0xFF, 0xFF, 0xFF]"

section \<open>Subcommand router (ReceiveSubcommands.cc)\<close>

text \<open>
  The handlers are given the client that sent the command and the lobby it
  is in. What a handler does to the outside is recorded as a list of events,
  in the order of the calls: a command sent to a client, a command appended to
  a client's join queue, a command added to the battle record, a warning
  written to the log. Calls that only write information to the log are left
  out.
\<close>

text \<open>The enumerators of \<^verbatim>\<open>Version\<close> that the file names.\<close>

datatype Version =
    PC_PATCH | BB_PATCH | DC_NTE | DC_V1_11_2000_PROTOTYPE | DC_V1 | DC_V2
  | PC_NTE | PC_V2 | GC_NTE | GC_V3 | GC_EP3_NTE | GC_EP3 | XB_V3 | BB_V4

text \<open>
  Modelled from the spec: Version.hh is absent. The pre-v1 prototypes are the
  two versions with subcommand numberings of their own (DC NTE and the
  November 2000 prototype); the Episode 3 versions are the two named so; v1
  and v2 are the DC and PC versions and the GC trial edition; v4 is BB.
\<close>

definition is_pre_v1 :: "Version \<Rightarrow> bool" where
  "is_pre_v1 v = (v = DC_NTE \<or> v = DC_V1_11_2000_PROTOTYPE)"

definition is_ep3 :: "Version \<Rightarrow> bool" where
  "is_ep3 v = (v = GC_EP3_NTE \<or> v = GC_EP3)"

definition is_v1_or_v2 :: "Version \<Rightarrow> bool" where
  "is_v1_or_v2 v = (v = DC_NTE \<or> v = DC_V1_11_2000_PROTOTYPE \<or> v = DC_V1 \<or> v = DC_V2
                     \<or> v = PC_NTE \<or> v = PC_V2 \<or> v = GC_NTE)"

definition is_v4 :: "Version \<Rightarrow> bool" where
  "is_v4 v = (v = BB_V4)"

subsection \<open>The table of subcommands\<close>

text \<open>
  \<^verbatim>\<open>SubcommandDefinition\<close>: the three numbers of a subcommand, whether it has a
  handler, and its flags (\<^verbatim>\<open>ALWAYS_FORWARD_TO_WATCHERS = 1\<close>,
  \<^verbatim>\<open>ALLOW_FORWARD_TO_WATCHED_LOBBY = 2\<close>, \<^verbatim>\<open>USE_JOIN_COMMAND_QUEUE = 4\<close>).
\<close>

record SubcommandDefinition =
  nte_subcommand :: byte
  proto_subcommand :: byte
  final_subcommand :: byte
  has_handler :: bool
  def_flags :: byte

definition ALWAYS_FORWARD_TO_WATCHERS :: byte where
  "ALWAYS_FORWARD_TO_WATCHERS = 1"

definition ALLOW_FORWARD_TO_WATCHED_LOBBY :: byte where
  "ALLOW_FORWARD_TO_WATCHED_LOBBY = 2"

definition USE_JOIN_COMMAND_QUEUE :: byte where
  "USE_JOIN_COMMAND_QUEUE = 4"

definition mk_def :: "byte \<times> byte \<times> byte \<times> bool \<times> byte \<Rightarrow> SubcommandDefinition" where
  "mk_def t = (case t of (n, p, f, h, g) \<Rightarrow>
     \<lparr>nte_subcommand = n, proto_subcommand = p, final_subcommand = f, has_handler = h,
      def_flags = g\<rparr>)"

definition subcommand_definitions :: "SubcommandDefinition list" where
  "subcommand_definitions = map mk_def [
      (0x00, 0x00, 0x00, True, 0), (0x01, 0x01, 0x01, True, 0), (0x02, 0x02, 0x02, False, 0), (0x03, 0x03, 0x03, False, 0),
      (0x04, 0x04, 0x04, False, 0), (0x05, 0x05, 0x05, True, 0), (0x06, 0x06, 0x06, True, 0), (0x07, 0x07, 0x07, True, 1),
      (0x08, 0x08, 0x08, False, 0), (0x09, 0x09, 0x09, False, 0), (0x0A, 0x0A, 0x0A, True, 0), (0x0B, 0x0B, 0x0B, True, 0),
      (0x0C, 0x0C, 0x0C, True, 0), (0x00, 0x00, 0x0D, True, 0), (0x00, 0x00, 0x0E, False, 0), (0x00, 0x00, 0x0F, True, 0),
      (0x0E, 0x0E, 0x10, False, 0), (0x0F, 0x0F, 0x11, False, 0), (0x10, 0x10, 0x12, True, 0), (0x11, 0x11, 0x13, True, 0),
      (0x12, 0x12, 0x14, True, 0), (0x13, 0x13, 0x15, True, 0), (0x14, 0x14, 0x16, True, 0), (0x15, 0x15, 0x17, True, 0),
      (0x16, 0x16, 0x18, True, 0), (0x17, 0x17, 0x19, True, 0), (0x00, 0x00, 0x1A, True, 0), (0x00, 0x19, 0x1B, True, 0),
      (0x00, 0x1A, 0x1C, True, 0), (0x19, 0x1B, 0x1D, True, 0), (0x1A, 0x1C, 0x1E, True, 0), (0x1B, 0x1D, 0x1F, True, 0),
      (0x1C, 0x1E, 0x20, True, 0), (0x1D, 0x1F, 0x21, True, 0), (0x1E, 0x20, 0x22, True, 0), (0x1F, 0x21, 0x23, True, 0),
      (0x20, 0x22, 0x24, True, 0), (0x21, 0x23, 0x25, True, 0), (0x22, 0x24, 0x26, True, 0), (0x23, 0x25, 0x27, True, 0),
      (0x24, 0x26, 0x28, True, 0), (0x25, 0x27, 0x29, True, 0), (0x26, 0x28, 0x2A, True, 0), (0x27, 0x29, 0x2B, True, 0),
      (0x28, 0x2A, 0x2C, True, 0), (0x29, 0x2B, 0x2D, True, 0), (0x2A, 0x2C, 0x2E, True, 0), (0x2B, 0x2D, 0x2F, True, 0),
      (0x2C, 0x2E, 0x30, True, 0), (0x2D, 0x2F, 0x31, True, 0), (0x00, 0x00, 0x32, True, 0), (0x2E, 0x30, 0x33, True, 0),
      (0x2F, 0x31, 0x34, False, 0), (0x30, 0x32, 0x35, False, 0), (0x00, 0x00, 0x36, True, 0), (0x32, 0x33, 0x37, True, 0),
      (0x33, 0x34, 0x38, False, 0), (0x00, 0x36, 0x39, True, 0), (0x00, 0x37, 0x3A, True, 0), (0x00, 0x38, 0x3B, True, 0),
      (0x34, 0x39, 0x3C, False, 0), (0x00, 0x00, 0x3D, False, 0), (0x00, 0x00, 0x3E, True, 0), (0x36, 0x3B, 0x3F, True, 0),
      (0x37, 0x3C, 0x40, True, 0), (0x38, 0x3D, 0x41, False, 0), (0x39, 0x3E, 0x42, True, 0), (0x3A, 0x3F, 0x43, True, 0),
      (0x3B, 0x40, 0x44, True, 0), (0x3C, 0x41, 0x45, True, 0), (0x00, 0x42, 0x46, True, 0), (0x3D, 0x43, 0x47, True, 0),
      (0x00, 0x00, 0x48, True, 0), (0x3E, 0x44, 0x49, True, 0), (0x3F, 0x45, 0x4A, True, 0), (0x40, 0x46, 0x4B, True, 0),
      (0x41, 0x47, 0x4C, True, 0), (0x42, 0x48, 0x4D, True, 0), (0x00, 0x00, 0x4E, True, 0), (0x43, 0x49, 0x4F, True, 0),
      (0x44, 0x4A, 0x50, True, 0), (0x00, 0x00, 0x51, False, 0), (0x46, 0x4C, 0x52, True, 0), (0x47, 0x4D, 0x53, True, 0),
      (0x48, 0x4E, 0x54, False, 0), (0x49, 0x4F, 0x55, True, 0), (0x4A, 0x50, 0x56, True, 0), (0x00, 0x51, 0x57, True, 0),
      (0x00, 0x00, 0x58, True, 0), (0x4B, 0x52, 0x59, True, 0), (0x4C, 0x53, 0x5A, True, 0), (0x4D, 0x54, 0x5B, False, 0),
      (0x4E, 0x55, 0x5C, False, 0), (0x4F, 0x56, 0x5D, True, 0), (0x50, 0x57, 0x5E, True, 0), (0x51, 0x58, 0x5F, True, 0),
      (0x52, 0x59, 0x60, True, 0), (0x53, 0x5A, 0x61, True, 0), (0x54, 0x5B, 0x62, False, 0), (0x55, 0x5C, 0x63, True, 0),
      (0x56, 0x5D, 0x64, False, 0), (0x57, 0x5E, 0x65, False, 0), (0x00, 0x00, 0x66, True, 0), (0x58, 0x5F, 0x67, True, 0),
      (0x59, 0x60, 0x68, True, 0), (0x5A, 0x61, 0x69, True, 0), (0x5B, 0x62, 0x6A, True, 0), (0x5C, 0x63, 0x6B, True, 4),
      (0x5D, 0x64, 0x6C, True, 4), (0x5E, 0x65, 0x6D, True, 4), (0x5F, 0x66, 0x6E, True, 4), (0x00, 0x00, 0x6F, True, 4),
      (0x60, 0x67, 0x70, True, 4), (0x00, 0x00, 0x71, True, 4), (0x61, 0x68, 0x72, True, 4), (0x00, 0x00, 0x73, True, 0),
      (0x62, 0x69, 0x74, True, 1), (0x00, 0x00, 0x75, True, 0), (0x00, 0x00, 0x76, True, 0), (0x00, 0x00, 0x77, True, 0),
      (0x00, 0x00, 0x78, False, 0), (0x00, 0x00, 0x79, True, 0), (0x00, 0x00, 0x7A, False, 0), (0x00, 0x00, 0x7B, False, 0),
      (0x00, 0x00, 0x7C, True, 0), (0x00, 0x00, 0x7D, True, 0), (0x00, 0x00, 0x7E, False, 0), (0x00, 0x00, 0x7F, False, 0),
      (0x00, 0x00, 0x80, True, 0), (0x00, 0x00, 0x81, False, 0), (0x00, 0x00, 0x82, False, 0), (0x00, 0x00, 0x83, True, 0),
      (0x00, 0x00, 0x84, True, 0), (0x00, 0x00, 0x85, True, 0), (0x00, 0x00, 0x86, True, 0), (0x00, 0x00, 0x87, True, 0),
      (0x00, 0x00, 0x88, True, 0), (0x00, 0x00, 0x89, True, 0), (0x00, 0x00, 0x8A, True, 0), (0x00, 0x00, 0x8B, False, 0),
      (0x00, 0x00, 0x8C, False, 0), (0x00, 0x00, 0x8D, True, 0), (0x00, 0x00, 0x8E, False, 0), (0x00, 0x00, 0x8F, False, 0),
      (0x00, 0x00, 0x90, False, 0), (0x00, 0x00, 0x91, True, 0), (0x00, 0x00, 0x92, False, 0), (0x00, 0x00, 0x93, True, 0),
      (0x00, 0x00, 0x94, True, 0), (0x00, 0x00, 0x95, False, 0), (0x00, 0x00, 0x96, False, 0), (0x00, 0x00, 0x97, True, 0),
      (0x00, 0x00, 0x98, False, 0), (0x00, 0x00, 0x99, False, 0), (0x00, 0x00, 0x9A, True, 0), (0x00, 0x00, 0x9B, True, 0),
      (0x00, 0x00, 0x9C, True, 0), (0x00, 0x00, 0x9D, True, 0), (0x00, 0x00, 0x9E, False, 0), (0x00, 0x00, 0x9F, True, 0),
      (0x00, 0x00, 0xA0, True, 0), (0x00, 0x00, 0xA1, True, 0), (0x00, 0x00, 0xA2, True, 0), (0x00, 0x00, 0xA3, True, 0),
      (0x00, 0x00, 0xA4, True, 0), (0x00, 0x00, 0xA5, True, 0), (0x00, 0x00, 0xA6, True, 0), (0x00, 0x00, 0xA7, False, 0),
      (0x00, 0x00, 0xA8, True, 0), (0x00, 0x00, 0xA9, True, 0), (0x00, 0x00, 0xAA, True, 0), (0x00, 0x00, 0xAB, True, 0),
      (0x00, 0x00, 0xAC, False, 0), (0x00, 0x00, 0xAD, True, 0), (0x00, 0x00, 0xAE, True, 0), (0x00, 0x00, 0xAF, True, 0),
      (0x00, 0x00, 0xB0, True, 0), (0x00, 0x00, 0xB1, False, 0), (0x00, 0x00, 0xB2, False, 0), (0x00, 0x00, 0xB3, False, 0),
      (0x00, 0x00, 0xB4, False, 0), (0x00, 0x00, 0xB5, True, 0), (0x00, 0x00, 0xB6, False, 0), (0x00, 0x00, 0xB7, True, 0),
      (0x00, 0x00, 0xB8, True, 0), (0x00, 0x00, 0xB9, False, 0), (0x00, 0x00, 0xBA, True, 0), (0x00, 0x00, 0xBB, True, 0),
      (0x00, 0x00, 0xBC, True, 0), (0x00, 0x00, 0xBD, True, 1), (0x00, 0x00, 0xBE, True, 3), (0x00, 0x00, 0xBF, True, 0),
      (0x00, 0x00, 0xC0, True, 0), (0x00, 0x00, 0xC1, True, 0), (0x00, 0x00, 0xC2, True, 0), (0x00, 0x00, 0xC3, True, 0),
      (0x00, 0x00, 0xC4, True, 0), (0x00, 0x00, 0xC5, True, 0), (0x00, 0x00, 0xC6, True, 0), (0x00, 0x00, 0xC7, True, 0),
      (0x00, 0x00, 0xC8, True, 0), (0x00, 0x00, 0xC9, True, 0), (0x00, 0x00, 0xCA, True, 0), (0x00, 0x00, 0xCB, True, 0),
      (0x00, 0x00, 0xCC, True, 0), (0x00, 0x00, 0xCD, True, 0), (0x00, 0x00, 0xCE, True, 0), (0x00, 0x00, 0xCF, True, 0),
      (0x00, 0x00, 0xD0, True, 0), (0x00, 0x00, 0xD1, True, 0), (0x00, 0x00, 0xD2, True, 0), (0x00, 0x00, 0xD3, False, 0),
      (0x00, 0x00, 0xD4, False, 0), (0x00, 0x00, 0xD5, True, 0), (0x00, 0x00, 0xD6, True, 0), (0x00, 0x00, 0xD7, True, 0),
      (0x00, 0x00, 0xD8, True, 0), (0x00, 0x00, 0xD9, True, 0), (0x00, 0x00, 0xDA, True, 0), (0x00, 0x00, 0xDB, False, 0),
      (0x00, 0x00, 0xDC, True, 0), (0x00, 0x00, 0xDD, False, 0), (0x00, 0x00, 0xDE, True, 0), (0x00, 0x00, 0xDF, True, 0),
      (0x00, 0x00, 0xE0, True, 0), (0x00, 0x00, 0xE1, True, 0), (0x00, 0x00, 0xE2, True, 0), (0x00, 0x00, 0xE3, False, 0),
      (0x00, 0x00, 0xE4, False, 0), (0x00, 0x00, 0xE5, False, 0), (0x00, 0x00, 0xE6, False, 0), (0x00, 0x00, 0xE7, False, 0),
      (0x00, 0x00, 0xE8, False, 0), (0x00, 0x00, 0xE9, False, 0), (0x00, 0x00, 0xEA, False, 0), (0x00, 0x00, 0xEB, False, 0),
      (0x00, 0x00, 0xEC, False, 0), (0x00, 0x00, 0xED, False, 0), (0x00, 0x00, 0xEE, False, 0), (0x00, 0x00, 0xEF, False, 0),
      (0x00, 0x00, 0xF0, False, 0), (0x00, 0x00, 0xF1, False, 0), (0x00, 0x00, 0xF2, False, 0), (0x00, 0x00, 0xF3, False, 0),
      (0x00, 0x00, 0xF4, False, 0), (0x00, 0x00, 0xF5, False, 0), (0x00, 0x00, 0xF6, False, 0), (0x00, 0x00, 0xF7, False, 0),
      (0x00, 0x00, 0xF8, False, 0), (0x00, 0x00, 0xF9, False, 0), (0x00, 0x00, 0xFA, False, 0), (0x00, 0x00, 0xFB, False, 0),
      (0x00, 0x00, 0xFC, False, 0), (0x00, 0x00, 0xFD, False, 0), (0x00, 0x00, 0xFE, False, 0), (0x00, 0x00, 0xFF, False, 0)
    ]"

text \<open>
  The reverse maps of \<^verbatim>\<open>def_for_nte_subcommand\<close> and
  \<^verbatim>\<open>def_for_proto_subcommand\<close>, built entry by entry; a number that two
  entries claim raises a logic error.
\<close>

fun populate_map ::
  "(SubcommandDefinition \<Rightarrow> byte) \<Rightarrow> string \<Rightarrow> SubcommandDefinition list \<Rightarrow> nat \<Rightarrow> byte list
     \<Rightarrow> error + byte list" where
  "populate_map sel msg [] z m = Inr m"
| "populate_map sel msg (d # ds) z m =
     (if sel d \<noteq> 0 then
        (if m ! unat (sel d) \<noteq> 0 then Inl (logic_error msg)
         else populate_map sel msg ds (Suc z) (m[unat (sel d) := of_nat z]))
      else populate_map sel msg ds (Suc z) m)"

definition lookup_via_map :: "error + byte list \<Rightarrow> byte \<Rightarrow> error + SubcommandDefinition option" where
  "lookup_via_map r subcommand =
     (case r of
        Inl e \<Rightarrow> Inl e
      | Inr m \<Rightarrow>
          (let final = m ! unat subcommand
           in Inr (if final \<noteq> 0 then Some (subcommand_definitions ! unat final) else None)))"

definition def_for_nte_subcommand :: "byte \<Rightarrow> error + SubcommandDefinition option" where
  "def_for_nte_subcommand subcommand =
     lookup_via_map
       (populate_map nte_subcommand ''multiple NTE subcommands map to the same final subcommand''
          subcommand_definitions 0 (replicate 256 0))
       subcommand"

definition def_for_proto_subcommand :: "byte \<Rightarrow> error + SubcommandDefinition option" where
  "def_for_proto_subcommand subcommand =
     lookup_via_map
       (populate_map proto_subcommand
          ''multiple prototype subcommands map to the same final subcommand''
          subcommand_definitions 0 (replicate 256 0))
       subcommand"

definition def_for_subcommand :: "Version \<Rightarrow> byte \<Rightarrow> error + SubcommandDefinition option" where
  "def_for_subcommand v subcommand =
     (if v = DC_NTE then def_for_nte_subcommand subcommand
      else if v = DC_V1_11_2000_PROTOTYPE then def_for_proto_subcommand subcommand
      else Inr (Some (subcommand_definitions ! unat subcommand)))"

definition command_is_private :: "byte \<Rightarrow> bool" where
  "command_is_private cmd = (cmd = 0x62 \<or> cmd = 0x6D)"

subsection \<open>Clients, lobbies and events\<close>

text \<open>
  What the handlers read of a client: its identity (the object, compared with
  \<^verbatim>\<open>==\<close> in the source), its version, its slot number as the client object
  records it, the floor it is on, whether it has a join command queue, and two
  of its configuration flags.
\<close>

record Client =
  ident :: nat
  cversion :: Version
  lobby_client_id :: nat
  cfloor :: nat
  has_join_queue :: bool
  debug_enabled :: bool
  rare_drop_notifications :: bool

text \<open>
  An item: the twelve octets of \<^verbatim>\<open>data1\<close>, the identifier and \<^verbatim>\<open>data2\<close>.
\<close>

record ItemData =
  data1 :: "byte list"
  item_id :: "32 word"
  data2d :: "32 word"

text \<open>
  The events. The first argument of an event that goes to one client is the
  identity of that client. The functions of SendCommands.cc are absent; a
  call of one of them is recorded with its arguments.
\<close>

datatype Event =
    SendCommand nat byte byte "byte list"
  | QueueJoinCommand nat byte byte "byte list"
  | BattleRecordCommand bool "byte list"
  | LogWarning string
  | SendTextMessage nat string
  | SendPickUpItem nat nat "32 word" nat
  | SendCreateInventoryItem nat nat ItemData
  | SendDropItem nat ItemData bool nat "32 word" "32 word" "16 word"
  | SendDropItemToLobby ItemData bool nat "32 word" "32 word" "16 word"
  | SendDropStackedItemToLobby ItemData nat "32 word" "32 word"

datatype SetupPhase = REGISTRATION | AFTER_REGISTRATION

datatype DropMode = DISABLED | CLIENT | SERVER_SHARED | SERVER_DUPLICATE | SERVER_PRIVATE

text \<open>
  Modelled from the spec: Lobby.hh is absent. A floor item is an item with a
  position and a visibility mask over the participants;
  \<^verbatim>\<open>visible_to_client(k)\<close> tests bit \<open>k\<close> of the mask.
\<close>

record FloorItem =
  fi_data :: ItemData
  fi_x :: "32 word"
  fi_z :: "32 word"
  visibility_flags :: "16 word"

definition visible_to_client :: "FloorItem \<Rightarrow> nat \<Rightarrow> bool" where
  "visible_to_client fi k = bit (visibility_flags fi) k"

text \<open>The entities of the map that a drop request names.\<close>

record MapObject =
  ob_floor :: nat
  ob_param1_positive :: bool
  ob_param3 :: "32 word"
  ob_param4 :: "32 word"
  ob_param5 :: "32 word"
  ob_param6 :: "32 word"
  item_drop_checked :: bool

record MapEnemy =
  en_type :: nat
  en_floor :: nat
  item_dropped :: bool

record Map =
  objects :: "MapObject list"
  enemies :: "MapEnemy list"

text \<open>
  The lobby, as far as the handlers below read or change it. The floor-item
  table is keyed by floor and item identifier; the counters are the next item
  identifier of every participant and the next identifier of the server's own
  range.
\<close>

record Lobby =
  game :: bool
  any_client_loading :: bool
  base_version :: Version
  episode_is_ep4 :: bool
  drop_mode :: DropMode
  leader_id :: nat
  max_clients :: nat
  clients :: "Client option list"
  spectator_team :: bool
  watched_lobby :: "Client option list option"
  watcher_lobbies :: "Client option list list"
  ep3_setup_phase :: "SetupPhase option"
  battle_in_progress :: bool
  floor_items :: "nat \<times> 32 word \<Rightarrow> FloorItem option"
  next_item_id_for_client :: "32 word list"
  next_game_item_id :: "32 word"
  lobby_map :: "Map option"
  item_creator_calls :: nat

text \<open>
  \<^verbatim>\<open>l->clients[k]\<close>: the array has twelve slots and an empty slot holds a null
  pointer; the model reads a slot that the list does not have as empty.
\<close>

definition client_at :: "Lobby \<Rightarrow> nat \<Rightarrow> Client option" where
  "client_at l k = (if k < length (clients l) then clients l ! k else None)"

subsection \<open>\<^verbatim>\<open>forward_subcommand\<close>\<close>

text \<open>
  The lambda \<^verbatim>\<open>send_to_client\<close>: the data is sent as it is when neither side
  is a pre-v1 version or both have the same version; otherwise its first octet
  is replaced by the number of the subcommand in the numbering of the
  receiver, when the table has one. \<open>c_v\<close> is the version of the sender and
  \<open>d\<close> the table entry found for the subcommand.
\<close>

definition translate_for ::
  "Version \<Rightarrow> SubcommandDefinition option \<Rightarrow> byte list \<Rightarrow> Client \<Rightarrow> byte list option" where
  "translate_for c_v d dat lc =
     (let lc_v = cversion lc in
      if (\<not> is_pre_v1 lc_v \<and> \<not> is_pre_v1 c_v) \<or> lc_v = c_v then Some dat
      else if lc_v = DC_NTE then
        (case d of
           Some e \<Rightarrow> if nte_subcommand e \<noteq> 0 then Some (dat[0 := nte_subcommand e]) else None
         | None \<Rightarrow> None)
      else if lc_v = DC_V1_11_2000_PROTOTYPE then
        (case d of
           Some e \<Rightarrow> if proto_subcommand e \<noteq> 0 then Some (dat[0 := proto_subcommand e]) else None
         | None \<Rightarrow> None)
      else
        (case d of
           Some e \<Rightarrow> if final_subcommand e \<noteq> 0 then Some (dat[0 := final_subcommand e]) else None
         | None \<Rightarrow> None))"

definition send_to_client ::
  "Version \<Rightarrow> SubcommandDefinition option \<Rightarrow> byte \<Rightarrow> byte \<Rightarrow> byte list \<Rightarrow> Client \<Rightarrow> Event list" where
  "send_to_client c_v d cmd flg dat lc =
     (let flags = (case d of None \<Rightarrow> 0 | Some e \<Rightarrow> def_flags e)
      in case translate_for c_v d dat lc of
           None \<Rightarrow> []
         | Some data_to_send \<Rightarrow>
             if data_to_send = [] then []
             else if flags AND USE_JOIN_COMMAND_QUEUE \<noteq> 0 \<and> has_join_queue lc
             then [QueueJoinCommand (ident lc) cmd flg data_to_send]
             else [SendCommand (ident lc) cmd flg data_to_send])"

text \<open>One pass over the slots of a lobby, sending to the clients that \<open>P\<close> admits.\<close>

definition send_to_each ::
  "(Client \<Rightarrow> bool) \<Rightarrow> (Client \<Rightarrow> Event list) \<Rightarrow> Client option list \<Rightarrow> Event list" where
  "send_to_each P deliver cs =
     concat (map (\<lambda>s. case s of None \<Rightarrow> [] | Some lc \<Rightarrow> if P lc then deliver lc else []) cs)"

text \<open>
  \<^verbatim>\<open>check_size_t<G_UnusedHeader>(data, size, 0xFFFF)\<close> admits a command of 4
  to \<open>0xFFFF\<close> octets. The function returns the error raised, if any, and
  the events up to that point.
\<close>

definition forward_subcommand ::
  "Client \<Rightarrow> Lobby option \<Rightarrow> byte \<Rightarrow> byte \<Rightarrow> byte list \<Rightarrow> error option \<times> Event list" where
  "forward_subcommand c lobby cmd flg dat =
     (let command_is_ep3 = (cmd AND 0xF0 = 0xC0) in
      if command_is_ep3 \<and> \<not> is_ep3 (cversion c)
      then (Some (runtime_error ''Episode 3 command sent by non-Episode 3 client''), [])
      else case lobby of
        None \<Rightarrow> (None, [LogWarning ''Not in any lobby; dropping command''])
      | Some l \<Rightarrow>
          if length dat < 4 \<or> 0xFFFF < length dat
          then (Some (runtime_error ''command size is out of range''), [])
          else case def_for_subcommand (cversion c) (dat ! 0) of
            Inl e \<Rightarrow> (Some e, [])
          | Inr d \<Rightarrow>
              (let flags = (case d of None \<Rightarrow> 0 | Some e \<Rightarrow> def_flags e);
                   deliver = send_to_client (cversion c) d cmd flg dat
               in if command_is_private cmd then
                    (if unat flg \<ge> max_clients l then (None, [])
                     else case client_at l (unat flg) of
                            None \<Rightarrow> (None, [])
                          | Some target \<Rightarrow> (None, deliver target))
                  else
                    (None,
                     (if command_is_ep3 then
                        send_to_each (\<lambda>lc. ident lc \<noteq> ident c \<and> is_ep3 (cversion lc)) deliver (clients l)
                        @ (if cmd = 0xCB \<and> spectator_team l
                              \<and> flags AND ALLOW_FORWARD_TO_WATCHED_LOBBY \<noteq> 0
                           then (case watched_lobby l of
                                   None \<Rightarrow> []
                                 | Some w \<Rightarrow> send_to_each (\<lambda>lc. is_ep3 (cversion lc)) deliver w)
                           else [])
                      else send_to_each (\<lambda>lc. ident lc \<noteq> ident c) deliver (clients l))
                     @ (if (case ep3_setup_phase l of None \<Rightarrow> False | Some ph \<Rightarrow> ph \<noteq> REGISTRATION)
                           \<or> flags AND ALWAYS_FORWARD_TO_WATCHERS \<noteq> 0
                        then concat (map (send_to_each (\<lambda>lc. is_ep3 (cversion lc)) deliver)
                                       (watcher_lobbies l))
                        else [])
                     @ (if battle_in_progress l then [BattleRecordCommand command_is_ep3 dat]
                        else []))))"

subsection \<open>Sync of a joining player's display data and inventory (6x70)\<close>


definition require_lobby :: "Lobby option \<Rightarrow> error + Lobby" where
  "require_lobby lobby =
     (case lobby of None \<Rightarrow> Inl (runtime_error ''client not in any lobby'') | Some l \<Rightarrow> Inr l)"





subsection \<open>Floor items and item identifiers of a lobby\<close>

text \<open>
  Modelled from the spec: Lobby.cc is absent. Section 4.7 names the
  operations \<^verbatim>\<open>item_exists(floor, id)\<close>, \<^verbatim>\<open>remove_item(floor, id,
  requester_slot)\<close> and \<^verbatim>\<open>add_item(floor, item, x, z, visibility_mask)\<close> on the
  floor-item table keyed by floor and identifier. Removing takes the entry out
  of the table and returns it (the handlers test its visibility themselves);
  an entry that is not there raises \<^verbatim>\<open>out_of_range\<close>. Adding stores the item
  under its own identifier.
\<close>

definition item_exists :: "Lobby \<Rightarrow> nat \<Rightarrow> 32 word \<Rightarrow> bool" where
  "item_exists l fl i = (floor_items l (fl, i) \<noteq> None)"

definition remove_item :: "Lobby \<Rightarrow> nat \<Rightarrow> 32 word \<Rightarrow> nat \<Rightarrow> error + FloorItem \<times> Lobby" where
  "remove_item l fl i requester =
     (case floor_items l (fl, i) of
        None \<Rightarrow> Inl (out_of_range ''item not present'')
      | Some fi \<Rightarrow> Inr (fi, l\<lparr>floor_items := (floor_items l)((fl, i) := None)\<rparr>))"

definition add_floor_item :: "Lobby \<Rightarrow> nat \<Rightarrow> FloorItem \<Rightarrow> Lobby" where
  "add_floor_item l fl fi =
     l\<lparr>floor_items := (floor_items l)((fl, item_id (fi_data fi)) \<mapsto> fi)\<rparr>"

definition add_item :: "Lobby \<Rightarrow> nat \<Rightarrow> ItemData \<Rightarrow> 32 word \<Rightarrow> 32 word \<Rightarrow> 16 word \<Rightarrow> Lobby" where
  "add_item l fl item x z vis =
     add_floor_item l fl \<lparr>fi_data = item, fi_x = x, fi_z = z, visibility_flags = vis\<rparr>"

text \<open>
  Modelled from the spec: \<^verbatim>\<open>generate_item_id(k)\<close> returns the next
  identifier in the progression of participant \<open>k\<close> and moves that
  progression on by one; the sentinel \<open>0xFF\<close>, and any other number that
  is no slot, addresses the separate progression of the server.
\<close>

definition generate_item_id :: "Lobby \<Rightarrow> nat \<Rightarrow> 32 word \<times> Lobby" where
  "generate_item_id l k =
     (if k \<noteq> 0xFF \<and> k < length (next_item_id_for_client l)
      then (next_item_id_for_client l ! k,
            l\<lparr>next_item_id_for_client :=
                 (next_item_id_for_client l)[k := next_item_id_for_client l ! k + 1]\<rparr>)
      else (next_game_item_id l, l\<lparr>next_game_item_id := next_game_item_id l + 1\<rparr>))"

subsection \<open>The inventory of a player\<close>

text \<open>
  What the model takes from the collaborators outside the files at hand: the
  item tables (the maximum stack size of a kind of item, whether an item is
  rare), \<^verbatim>\<open>ItemData::empty\<close>, the item creator of the lobby (its result
  depends on its random state, which the model represents by the number of
  calls made before), the rare-table index of an enemy type, and the size
  checks that read a command out of its octets (\<^verbatim>\<open>check_size_t\<close> on the
  structs of CommandFormats.hh; \<open>None\<close> when the size is wrong).
\<close>

datatype ItemCreatorCall =
    BoxItemDrop byte
  | SpecializedBoxItemDrop byte "32 word" "32 word" "32 word" "32 word"
  | MonsterItemDrop byte byte

record DropResult =
  dr_item :: ItemData
  is_from_rare_table :: bool

datatype DropRequestFormat = Format_6xA2 | Format_6x60_PC_V3_BB | Format_6x60_DC

record DropRequest =
  rq_subcommand :: byte
  rq_entity_id :: "16 word"
  rq_floor :: byte
  rq_rt_index :: byte
  rq_x :: "32 word"
  rq_z :: "32 word"
  rq_ignore_def :: byte
  rq_effective_area :: byte
  rq_param3 :: "32 word"
  rq_param4 :: "32 word"
  rq_param5 :: "32 word"
  rq_param6 :: "32 word"

record PickUpCommand =
  pu_client_id :: nat
  pu_floor :: nat
  pu_item_id :: "32 word"

record SplitStackCommand =
  ss_client_id :: nat
  ss_floor :: nat
  ss_x :: "32 word"
  ss_z :: "32 word"
  ss_item_id :: "32 word"
  ss_amount :: nat

record DeleteItemCommand =
  di_client_id :: nat
  di_item_id :: "32 word"
  di_amount :: nat

record Externals =
  max_stack_size :: "Version \<Rightarrow> byte \<times> byte \<times> byte \<Rightarrow> nat"
  is_item_rare :: "Version \<Rightarrow> ItemData \<Rightarrow> bool"
  item_empty :: "ItemData \<Rightarrow> bool"
  item_creator :: "ItemCreatorCall \<Rightarrow> nat \<Rightarrow> DropResult"
  rare_table_index_for_enemy_type :: "nat \<Rightarrow> byte"
  decode_drop_request :: "byte list \<Rightarrow> (DropRequestFormat \<times> DropRequest) option"
  decode_pick_up :: "byte list \<Rightarrow> PickUpCommand option"
  decode_pick_up_request :: "byte list \<Rightarrow> PickUpCommand option"
  decode_split_stack :: "byte list \<Rightarrow> SplitStackCommand option"
  decode_delete_item :: "byte list \<Rightarrow> DeleteItemCommand option"

text \<open>
  Modelled from the spec: the inventory functions of the character file are
  absent. The primary identifier of an item depends only on its kind and
  subkind (the first three octets of \<^verbatim>\<open>data1\<close>), and so does its maximum stack
  size; the size of a stack is the octet \<^verbatim>\<open>data1[5]\<close>. An inventory holds at
  most 30 items.

  \<^verbatim>\<open>remove_item(id, amount)\<close>: when the item is a stack and a nonzero amount
  smaller than the stack is asked for, the stack stays in the inventory with
  its identifier and loses the amount, and the item returned is the removed
  part with the identifier \<open>0xFFFFFFFF\<close>; otherwise the whole item leaves
  the inventory and is returned. An identifier that is not in the inventory
  raises \<^verbatim>\<open>out_of_range\<close>.

  \<^verbatim>\<open>add_item(item)\<close>: an item of a stackable kind joins the stack of its
  kind when the inventory has one, unless that would exceed the maximum; any
  other item is appended, and when the inventory is full the call raises
  \<^verbatim>\<open>out_of_range\<close>. Meseta, which is kept outside the inventory, is not
  modelled.
\<close>

definition primary_identifier :: "ItemData \<Rightarrow> byte \<times> byte \<times> byte" where
  "primary_identifier i = (data1 i ! 0, data1 i ! 1, data1 i ! 2)"

definition stack_count :: "ItemData \<Rightarrow> nat" where
  "stack_count i = unat (data1 i ! 5)"

definition set_stack_count :: "ItemData \<Rightarrow> nat \<Rightarrow> ItemData" where
  "set_stack_count i n = i\<lparr>data1 := (data1 i)[5 := of_nat n]\<rparr>"

fun find_item :: "ItemData list \<Rightarrow> 32 word \<Rightarrow> nat option" where
  "find_item [] i = None"
| "find_item (x # xs) i = (if item_id x = i then Some 0 else map_option Suc (find_item xs i))"

fun find_stack :: "ItemData list \<Rightarrow> byte \<times> byte \<times> byte \<Rightarrow> nat option" where
  "find_stack [] k = None"
| "find_stack (x # xs) k =
     (if primary_identifier x = k then Some 0 else map_option Suc (find_stack xs k))"

definition inventory_remove_item ::
  "Externals \<Rightarrow> Version \<Rightarrow> ItemData list \<Rightarrow> 32 word \<Rightarrow> nat \<Rightarrow> error + ItemData \<times> ItemData list" where
  "inventory_remove_item ext v inven i amount =
     (case find_item inven i of
        None \<Rightarrow> Inl (out_of_range ''item not present'')
      | Some k \<Rightarrow>
          (let it = inven ! k in
           if amount \<noteq> 0 \<and> 1 < max_stack_size ext v (primary_identifier it)
              \<and> amount < stack_count it
           then Inr ((set_stack_count it amount)\<lparr>item_id := 0xFFFFFFFF\<rparr>,
                     inven[k := set_stack_count it (stack_count it - amount)])
           else Inr (it, take k inven @ drop (Suc k) inven)))"

definition inventory_add_item ::
  "Externals \<Rightarrow> Version \<Rightarrow> ItemData list \<Rightarrow> ItemData \<Rightarrow> error + ItemData list" where
  "inventory_add_item ext v inven item =
     (let m = max_stack_size ext v (primary_identifier item);
          stack = (if 1 < m then find_stack inven (primary_identifier item) else None)
      in case stack of
           Some k \<Rightarrow>
             (let n = stack_count (inven ! k) + stack_count item
              in if m < n then Inl (out_of_range ''stack is too large'')
                 else Inr (inven[k := set_stack_count (inven ! k) n]))
         | None \<Rightarrow>
             if 30 \<le> length inven then Inl (out_of_range ''inventory is full'')
             else Inr (inven @ [item]))"

definition is_out_of_range :: "error \<Rightarrow> bool" where
  "is_out_of_range e = (case e of out_of_range m \<Rightarrow> True | _ \<Rightarrow> False)"

subsection \<open>Picking up a floor item (6x59 and 6x5A)\<close>

text \<open>
  The loop over the twelve slots that tells the participants of a pick-up:
  \<^verbatim>\<open>send_pick_up_item_to_client\<close> for a slot whose bit is set in the mask of
  the item, \<^verbatim>\<open>send_create_inventory_item_to_client\<close> for the others.
\<close>

definition pick_up_fan_out ::
  "Client \<Rightarrow> Lobby \<Rightarrow> FloorItem \<Rightarrow> nat \<Rightarrow> nat \<Rightarrow> 32 word \<Rightarrow> bool \<Rightarrow> Event list" where
  "pick_up_fan_out c l fi client_id fl i is_request =
     concat (map (\<lambda>z. case client_at l z of
                         None \<Rightarrow> []
                       | Some lc \<Rightarrow>
                           if \<not> is_request \<and> ident lc = ident c then []
                           else if visible_to_client fi z
                           then [SendPickUpItem (ident lc) client_id i fl]
                           else [SendCreateInventoryItem (ident lc) client_id (fi_data fi)])
                 [0..<12])"

text \<open>
  The handlers return the error raised, if any, the inventory of the sender,
  the lobby and the events. A handler that raises returns the state as it is
  at that point.
\<close>

definition on_pick_up_item_generic ::
  "Externals \<Rightarrow> Client \<Rightarrow> ItemData list \<Rightarrow> Lobby option \<Rightarrow> nat \<Rightarrow> nat \<Rightarrow> 32 word \<Rightarrow> bool
     \<Rightarrow> error option \<times> ItemData list \<times> Lobby option \<times> Event list" where
  "on_pick_up_item_generic ext c inven lobby client_id fl i is_request =
     (case require_lobby lobby of
        Inl e \<Rightarrow> (Some e, inven, lobby, [])
      | Inr l \<Rightarrow>
          if \<not> game l \<or> client_id \<noteq> lobby_client_id c then (None, inven, Some l, [])
          else if \<not> item_exists l fl i
          then (None, inven, Some l,
                [LogWarning ''Player requests to pick up an item, but the item does not exist; dropping command''])
          else case remove_item l fl i (lobby_client_id c) of
            Inl e \<Rightarrow> (Some e, inven, Some l, [])
          | Inr (fi, l1) \<Rightarrow>
              if \<not> visible_to_client fi (lobby_client_id c)
              then (None, inven, Some (add_floor_item l1 fl fi),
                    [LogWarning ''Player requests to pick up an item, but is it not visible to them; dropping command''])
              else case inventory_add_item ext (cversion c) inven (fi_data fi) of
                Inl e \<Rightarrow>
                  if is_out_of_range e
                  then (None, inven, Some (add_floor_item l1 fl fi),
                        [LogWarning ''Player requests to pick up an item, but their inventory is full; dropping command''])
                  else (Some e, inven, Some l1, [])
              | Inr inven' \<Rightarrow>
                  (None, inven', Some l1, pick_up_fan_out c l1 fi client_id fl i is_request))"

definition on_pick_up_item ::
  "Externals \<Rightarrow> Client \<Rightarrow> ItemData list \<Rightarrow> Lobby option \<Rightarrow> byte list
     \<Rightarrow> error option \<times> ItemData list \<times> Lobby option \<times> Event list" where
  "on_pick_up_item ext c inven lobby dat =
     (case decode_pick_up ext dat of
        None \<Rightarrow> (Some (runtime_error ''command size is incorrect''), inven, lobby, [])
      | Some cmd \<Rightarrow>
          on_pick_up_item_generic ext c inven lobby (pu_client_id cmd) (pu_floor cmd)
            (pu_item_id cmd) False)"

definition on_pick_up_item_request ::
  "Externals \<Rightarrow> Client \<Rightarrow> ItemData list \<Rightarrow> Lobby option \<Rightarrow> byte list
     \<Rightarrow> error option \<times> ItemData list \<times> Lobby option \<times> Event list" where
  "on_pick_up_item_request ext c inven lobby dat =
     (case decode_pick_up_request ext dat of
        None \<Rightarrow> (Some (runtime_error ''command size is incorrect''), inven, lobby, [])
      | Some cmd \<Rightarrow>
          on_pick_up_item_generic ext c inven lobby (pu_client_id cmd) (pu_floor cmd)
            (pu_item_id cmd) True)"

subsection \<open>Entity drop requests (6x60 and 6xA2)\<close>

text \<open>
  \<^verbatim>\<open>send_rare_notification_if_needed\<close>: a text message to a client that asked
  for rare-drop notifications, when the item is rare and either comes from the
  rare table or is a tool.
\<close>

definition send_rare_notification_if_needed ::
  "Externals \<Rightarrow> Client \<Rightarrow> ItemData \<Rightarrow> bool \<Rightarrow> Event list" where
  "send_rare_notification_if_needed ext to_c item from_rare_table =
     (if \<not> rare_drop_notifications to_c
         \<or> (\<not> from_rare_table \<and> data1 item ! 0 \<noteq> 0x03)
         \<or> \<not> is_item_rare ext (cversion to_c) item
      then []
      else [SendTextMessage (ident to_c) ''$C6Rare item dropped''])"

text \<open>
  The command as the handler works on it, built from what was read off the
  wire: the request of format 6xA2 as it is, the two 6x60 formats with the
  parameters of a specialized box left at zero, and the floor as the
  effective area for the DC format. A wrong subcommand number raises an
  error.
\<close>

definition drop_request_fields :: "DropRequest \<Rightarrow> byte \<Rightarrow> DropRequest" where
  "drop_request_fields w area =
     \<lparr>rq_subcommand = 0xA2, rq_entity_id = rq_entity_id w, rq_floor = rq_floor w,
      rq_rt_index = rq_rt_index w, rq_x = rq_x w, rq_z = rq_z w,
      rq_ignore_def = rq_ignore_def w, rq_effective_area = area,
      rq_param3 = 0, rq_param4 = 0, rq_param5 = 0, rq_param6 = 0\<rparr>"

definition read_drop_request :: "Externals \<Rightarrow> byte list \<Rightarrow> error + DropRequest" where
  "read_drop_request ext dat =
     (case decode_drop_request ext dat of
        None \<Rightarrow> Inl (runtime_error ''command size is incorrect'')
      | Some (fmt, w) \<Rightarrow>
          (case fmt of
             Format_6xA2 \<Rightarrow>
               if rq_subcommand w \<noteq> 0xA2
               then Inl (runtime_error ''item drop request has incorrect subcommand'')
               else Inr w
           | Format_6x60_PC_V3_BB \<Rightarrow>
               if rq_subcommand w \<noteq> 0x60
               then Inl (runtime_error ''item drop request has incorrect subcommand'')
               else Inr (drop_request_fields w (rq_effective_area w))
           | Format_6x60_DC \<Rightarrow>
               if rq_subcommand w \<noteq> 0x60
               then Inl (runtime_error ''item drop request has incorrect subcommand'')
               else Inr (drop_request_fields w (rq_floor w))))"

text \<open>
  The look at the map entity the request names. For a box the parameters of
  the object replace those of the command in v1 and v2 games; for an enemy the
  rare-table index is the one of its type, unless the command disagrees in a
  game that is not v4 (outside Episode 4). \<^verbatim>\<open>at()\<close> raises \<^verbatim>\<open>out_of_range\<close>
  for an entity the map does not have. The result is the command, the
  effective rare-table index and the events.
\<close>

definition debug_message :: "Client \<Rightarrow> string \<Rightarrow> Event list" where
  "debug_message c m = (if debug_enabled c then [SendTextMessage (ident c) m] else [])"

definition check_box ::
  "Client \<Rightarrow> Lobby \<Rightarrow> DropRequest \<Rightarrow> error + DropRequest \<times> Event list" where
  "check_box c l cmd =
     (case lobby_map l of
        None \<Rightarrow> Inr (cmd, [])
      | Some m \<Rightarrow>
          if length (objects m) \<le> unat (rq_entity_id cmd) then Inl (out_of_range ''vector'')
          else
            (let ob = objects m ! unat (rq_entity_id cmd);
                 cmd' = (if is_v1_or_v2 (base_version l) \<and> base_version l \<noteq> GC_NTE
                         then cmd\<lparr>rq_param3 := ob_param3 ob, rq_param4 := ob_param4 ob,
                                  rq_param5 := ob_param5 ob, rq_param6 := ob_param6 ob\<rparr>
                         else cmd)
             in Inr (cmd',
                  (if unat (rq_floor cmd) \<noteq> ob_floor ob
                   then [LogWarning ''Floor from command does not match object's expected floor'']
                   else [])
                  @ (if (rq_ignore_def cmd \<noteq> 0) \<noteq> ob_param1_positive ob
                     then [LogWarning ''ignore_def value from command does not match object's expected ignore_def'']
                     else [])
                  @ debug_message c ''$C5K'')))"

definition check_enemy ::
  "Externals \<Rightarrow> Client \<Rightarrow> Lobby \<Rightarrow> DropRequest \<Rightarrow> error + byte \<times> Event list" where
  "check_enemy ext c l cmd =
     (case lobby_map l of
        None \<Rightarrow> Inr (0xFF, [])
      | Some m \<Rightarrow>
          if length (enemies m) \<le> unat (rq_entity_id cmd) then Inl (out_of_range ''vector'')
          else
            (let en = enemies m ! unat (rq_entity_id cmd);
                 expected = rare_table_index_for_enemy_type ext (en_type en);
                 mismatch = (\<not> episode_is_ep4 l \<and> rq_rt_index cmd \<noteq> expected)
             in Inr (if mismatch \<and> \<not> is_v4 (base_version l) then rq_rt_index cmd else expected,
                  (if mismatch
                   then [LogWarning ''rt_index from command does not match entity's expected index'']
                   else [])
                  @ (if unat (rq_floor cmd) \<noteq> en_floor en
                     then [LogWarning ''Floor from command does not match entity's expected floor'']
                     else [])
                  @ debug_message c ''$C5E'')))"

text \<open>
  The request is for a box when its rare-table index is \<open>0x30\<close>, and for an
  enemy otherwise; the effective rare-table index of a box request stays
  \<open>0xFF\<close>.
\<close>

definition check_entity ::
  "Externals \<Rightarrow> Client \<Rightarrow> Lobby \<Rightarrow> DropRequest \<Rightarrow> error + DropRequest \<times> byte \<times> Event list" where
  "check_entity ext c l rq =
     (if rq_rt_index rq = 0x30
      then (case check_box c l rq of Inl e \<Rightarrow> Inl e | Inr (rq', ev) \<Rightarrow> Inr (rq', 0xFF, ev))
      else (case check_enemy ext c l rq of Inl e \<Rightarrow> Inl e | Inr (rt, ev) \<Rightarrow> Inr (rq, rt, ev)))"

text \<open>
  The per-entity flag that a drop decision has been made: the request drops
  an item only when the flag was not set, and sets it. Without a map every
  request drops.
\<close>

definition mark_drop_checked :: "Lobby \<Rightarrow> bool \<Rightarrow> nat \<Rightarrow> bool \<times> Lobby" where
  "mark_drop_checked l is_box k =
     (case lobby_map l of
        None \<Rightarrow> (True, l)
      | Some m \<Rightarrow>
          if is_box then
            (if item_drop_checked (objects m ! k) then (False, l)
             else (True, l\<lparr>lobby_map :=
                     Some (m\<lparr>objects := (objects m)[k := (objects m ! k)\<lparr>item_drop_checked := True\<rparr>]\<rparr>)\<rparr>))
          else
            (if item_dropped (enemies m ! k) then (False, l)
             else (True, l\<lparr>lobby_map :=
                     Some (m\<lparr>enemies := (enemies m)[k := (enemies m ! k)\<lparr>item_dropped := True\<rparr>]\<rparr>)\<rparr>)))"

text \<open>The lambda \<^verbatim>\<open>generate_item\<close>: one call of the item creator of the lobby.\<close>

definition generate_item ::
  "Externals \<Rightarrow> Lobby \<Rightarrow> DropRequest \<Rightarrow> byte \<Rightarrow> DropResult \<times> Lobby" where
  "generate_item ext l cmd effective_rt_index =
     (let call =
        (if rq_rt_index cmd = 0x30 then
           (if rq_ignore_def cmd \<noteq> 0 then BoxItemDrop (rq_effective_area cmd)
            else SpecializedBoxItemDrop (rq_effective_area cmd) (rq_param3 cmd) (rq_param4 cmd)
                   (rq_param5 cmd) (rq_param6 cmd))
         else MonsterItemDrop effective_rt_index (rq_effective_area cmd))
      in (item_creator ext call (item_creator_calls l),
          l\<lparr>item_creator_calls := Suc (item_creator_calls l)\<rparr>))"

text \<open>
  The participants a duplicated or private drop is made for: the clients of
  the occupied slots that are on the floor of the drop, or all of them when
  the drop comes from a box.
\<close>

definition drop_eligible :: "DropRequest \<Rightarrow> Client \<Rightarrow> bool" where
  "drop_eligible cmd lc = (rq_rt_index cmd = 0x30 \<or> cfloor lc = unat (rq_floor cmd))"

text \<open>
  One item created for one client: a fresh identifier of the server's range,
  the floor item visible to that client alone, the drop sent to its channel,
  and the notification of a rare item.
\<close>

definition create_item_for ::
  "Externals \<Rightarrow> DropRequest \<Rightarrow> DropResult \<Rightarrow> Client \<Rightarrow> Lobby \<Rightarrow> Lobby \<times> Event list" where
  "create_item_for ext cmd res lc l =
     (let (new_id, l1) = generate_item_id l 0xFF;
          item = (dr_item res)\<lparr>item_id := new_id\<rparr>
      in (add_item l1 (unat (rq_floor cmd)) item (rq_x cmd) (rq_z cmd)
            (push_bit (lobby_client_id lc) 1),
          SendDropItem (ident lc) item (rq_rt_index cmd \<noteq> 0x30) (unat (rq_floor cmd))
            (rq_x cmd) (rq_z cmd) (rq_entity_id cmd)
          # send_rare_notification_if_needed ext lc item (is_from_rare_table res)))"

fun duplicate_loop ::
  "Externals \<Rightarrow> DropRequest \<Rightarrow> DropResult \<Rightarrow> Client option list \<Rightarrow> Lobby \<Rightarrow> Lobby \<times> Event list" where
  "duplicate_loop ext cmd res [] l = (l, [])"
| "duplicate_loop ext cmd res (None # cs) l = duplicate_loop ext cmd res cs l"
| "duplicate_loop ext cmd res (Some lc # cs) l =
     (if drop_eligible cmd lc then
        (let (l1, ev1) = create_item_for ext cmd res lc l;
             (l2, ev2) = duplicate_loop ext cmd res cs l1
         in (l2, ev1 @ ev2))
      else duplicate_loop ext cmd res cs l)"

fun private_loop ::
  "Externals \<Rightarrow> DropRequest \<Rightarrow> byte \<Rightarrow> Client option list \<Rightarrow> Lobby \<Rightarrow> Lobby \<times> Event list" where
  "private_loop ext cmd rt [] l = (l, [])"
| "private_loop ext cmd rt (None # cs) l = private_loop ext cmd rt cs l"
| "private_loop ext cmd rt (Some lc # cs) l =
     (if drop_eligible cmd lc then
        (let (res, l0) = generate_item ext l cmd rt;
             (l1, ev1) = (if item_empty ext (dr_item res) then (l0, [])
                          else create_item_for ext cmd res lc l0);
             (l2, ev2) = private_loop ext cmd rt cs l1
         in (l2, ev1 @ ev2))
      else private_loop ext cmd rt cs l)"

text \<open>The item of a shared drop: one identifier, visible to all, sent to the lobby.\<close>

definition shared_drop ::
  "Externals \<Rightarrow> DropRequest \<Rightarrow> DropResult \<Rightarrow> Lobby \<Rightarrow> Lobby \<times> Event list" where
  "shared_drop ext cmd res l =
     (let (new_id, l1) = generate_item_id l 0xFF;
          item = (dr_item res)\<lparr>item_id := new_id\<rparr>
      in (add_item l1 (unat (rq_floor cmd)) item (rq_x cmd) (rq_z cmd) 0x00F,
          SendDropItemToLobby item (rq_rt_index cmd \<noteq> 0x30) (unat (rq_floor cmd))
            (rq_x cmd) (rq_z cmd) (rq_entity_id cmd)
          # send_to_each (\<lambda>lc. True)
              (\<lambda>lc. send_rare_notification_if_needed ext lc item (is_from_rare_table res))
              (clients l)))"

definition server_drop ::
  "Externals \<Rightarrow> DropRequest \<Rightarrow> byte \<Rightarrow> Lobby \<Rightarrow> Lobby \<times> Event list" where
  "server_drop ext cmd rt l =
     (case drop_mode l of
        SERVER_PRIVATE \<Rightarrow> private_loop ext cmd rt (clients l) l
      | _ \<Rightarrow>
          (let (res, l0) = generate_item ext l cmd rt
           in if item_empty ext (dr_item res) then (l0, [])
              else if drop_mode l = SERVER_DUPLICATE
              then duplicate_loop ext cmd res (clients l0) l0
              else shared_drop ext cmd res l0))"

definition on_entity_drop_item_request ::
  "Externals \<Rightarrow> Client \<Rightarrow> Lobby option \<Rightarrow> byte \<Rightarrow> byte \<Rightarrow> byte list
     \<Rightarrow> error option \<times> Lobby option \<times> Event list" where
  "on_entity_drop_item_request ext c lobby cmd flg dat =
     (case require_lobby lobby of
        Inl e \<Rightarrow> (Some e, lobby, [])
      | Inr l \<Rightarrow>
          if \<not> game l then (None, Some l, [])
          else if drop_mode l = CLIENT
          then (case forward_subcommand c (Some l) cmd flg dat of (err, ev) \<Rightarrow> (err, Some l, ev))
          else if drop_mode l = DISABLED then (None, Some l, [])
          else case read_drop_request ext dat of
            Inl e \<Rightarrow> (Some e, Some l, [])
          | Inr rq \<Rightarrow>
              (case check_entity ext c l rq of
                 Inl e \<Rightarrow> (Some e, Some l, [])
               | Inr (rq', rt, ev) \<Rightarrow>
                   (let (should_drop, l1) =
                          mark_drop_checked l (rq_rt_index rq = 0x30) (unat (rq_entity_id rq'))
                    in if should_drop
                       then (case server_drop ext rq' rt l1 of
                               (l2, ev2) \<Rightarrow> (None, Some l2, ev @ ev2))
                       else (None, Some l1, ev))))"

subsection \<open>Splitting a stack on BB (6xC3) and deleting an inventory item (6x29)\<close>

definition on_drop_partial_stack_bb ::
  "Externals \<Rightarrow> Client \<Rightarrow> ItemData list \<Rightarrow> Lobby option \<Rightarrow> byte \<Rightarrow> byte \<Rightarrow> byte list
     \<Rightarrow> error option \<times> ItemData list \<times> Lobby option \<times> Event list" where
  "on_drop_partial_stack_bb ext c inven lobby cmd flg dat =
     (case require_lobby lobby of
        Inl e \<Rightarrow> (Some e, inven, lobby, [])
      | Inr l \<Rightarrow>
          if base_version l = BB_V4 then
            (case decode_split_stack ext dat of
               None \<Rightarrow> (Some (runtime_error ''command size is incorrect''), inven, Some l, [])
             | Some ss \<Rightarrow>
                 if \<not> game l \<or> ss_client_id ss \<noteq> lobby_client_id c then (None, inven, Some l, [])
                 else case inventory_remove_item ext (cversion c) inven (ss_item_id ss) (ss_amount ss) of
                   Inl e \<Rightarrow> (Some e, inven, Some l, [])
                 | Inr (removed, inven1) \<Rightarrow>
                     (let (item, l1) =
                            (if item_id removed = 0xFFFFFFFF
                             then (case generate_item_id l (lobby_client_id c) of
                                     (new_id, l') \<Rightarrow> (removed\<lparr>item_id := new_id\<rparr>, l'))
                             else (removed, l))
                      in case inventory_add_item ext (cversion c) inven1 item of
                           Inl e \<Rightarrow> (Some e, inven1, Some l1, [])
                         | Inr inven2 \<Rightarrow>
                             (None, inven2,
                              Some (add_item l1 (ss_floor ss) item (ss_x ss) (ss_z ss) 0x00F),
                              [SendDropStackedItemToLobby item (ss_floor ss) (ss_x ss) (ss_z ss)])))
          else (case forward_subcommand c (Some l) cmd flg dat of
                  (err, ev) \<Rightarrow> (err, inven, Some l, ev)))"

definition on_destroy_inventory_item ::
  "Externals \<Rightarrow> Client \<Rightarrow> ItemData list \<Rightarrow> Lobby option \<Rightarrow> byte \<Rightarrow> byte \<Rightarrow> byte list
     \<Rightarrow> error option \<times> ItemData list \<times> Lobby option \<times> Event list" where
  "on_destroy_inventory_item ext c inven lobby cmd flg dat =
     (case decode_delete_item ext dat of
        None \<Rightarrow> (Some (runtime_error ''command size is incorrect''), inven, lobby, [])
      | Some di \<Rightarrow>
          (case require_lobby lobby of
             Inl e \<Rightarrow> (Some e, inven, lobby, [])
           | Inr l \<Rightarrow>
               if \<not> game l then (None, inven, Some l, [])
               else if di_client_id di \<noteq> lobby_client_id c then (None, inven, Some l, [])
               else case inventory_remove_item ext (cversion c) inven (di_item_id di) (di_amount di) of
                 Inl e \<Rightarrow> (Some e, inven, Some l, [])
               | Inr (removed, inven1) \<Rightarrow>
                   (case forward_subcommand c (Some l) cmd flg dat of
                      (err, ev) \<Rightarrow> (err, inven1, Some l, ev))))"

text \<open>
  Clients, lobbies, items and collaborators used to evaluate the handlers on
  concrete inputs. The example item is a stack of ten of a tool; the example
  lobby is a game of at most four participants with no floor items.
\<close>

definition example_client :: "nat \<Rightarrow> Version \<Rightarrow> Client" where
  "example_client k v =
     \<lparr>ident = 100 + k, cversion = v, lobby_client_id = k, cfloor = 2, has_join_queue = False,
      debug_enabled = False, rare_drop_notifications = False\<rparr>"

definition example_lobby :: "DropMode \<Rightarrow> Version \<Rightarrow> Client option list \<Rightarrow> Lobby" where
  "example_lobby m v cs =
     \<lparr>game = True, any_client_loading = False, base_version = v, episode_is_ep4 = False,
      drop_mode = m, leader_id = 0, max_clients = 4, clients = cs, spectator_team = False,
      watched_lobby = None, watcher_lobbies = [], ep3_setup_phase = None,
      battle_in_progress = False, floor_items = (\<lambda>k. None),
      next_item_id_for_client = [0x00010000, 0x00210000, 0x00410000, 0x00610000],
      next_game_item_id = 0x00810000, lobby_map = None, item_creator_calls = 0\<rparr>"

definition example_item :: ItemData where
  "example_item = \<lparr>data1 = [0x03, 0x00, 0x00, 0x00, 0x00, 0x0A, 0, 0, 0, 0, 0, 0],
                    item_id = 0x00AB0005, data2d = 0\<rparr>"

definition example_externals :: Externals where
  "example_externals =
     \<lparr>max_stack_size = (\<lambda>v k. if fst k = 0x03 then 10 else 1),
      is_item_rare = (\<lambda>v i. False),
      item_empty = (\<lambda>i. data1 i ! 0 = 0xFF),
      item_creator = (\<lambda>call n. \<lparr>dr_item = example_item\<lparr>item_id := 0xFFFFFFFF\<rparr>,
                                  is_from_rare_table = False\<rparr>),
      rare_table_index_for_enemy_type = (\<lambda>t. of_nat t),
      decode_drop_request = (\<lambda>d. None),
      decode_pick_up = (\<lambda>d. None),
      decode_pick_up_request = (\<lambda>d. None),
      decode_split_stack = (\<lambda>d. None),
      decode_delete_item = (\<lambda>d. None)\<rparr>"


definition example_players :: "Client option list" where
  "example_players = [Some (example_client 0 GC_V3), Some (example_client 1 GC_V3),
                      Some (example_client 2 GC_V3), None]"




text \<open>
  The condition under which \<^verbatim>\<open>add_item\<close> finds the inventory full: thirty
  items, and no stack that the item could join.
\<close>

definition inventory_full_for :: "Externals \<Rightarrow> Version \<Rightarrow> ItemData list \<Rightarrow> ItemData \<Rightarrow> bool" where
  "inventory_full_for ext v inven item =
     (30 \<le> length inven \<and>
      (max_stack_size ext v (primary_identifier item) \<le> 1
       \<or> find_stack inven (primary_identifier item) = None))"

text \<open>
  The slots that are told of a pick-up, in the order of the slots, and the
  message each of them gets: every occupied slot, but for the sender itself
  when the pick-up came as 6x59.
\<close>

definition notified_slots :: "Client \<Rightarrow> Lobby \<Rightarrow> bool \<Rightarrow> nat list" where
  "notified_slots c l is_request =
     filter (\<lambda>z. case client_at l z of
                   None \<Rightarrow> False
                 | Some lc \<Rightarrow> is_request \<or> ident lc \<noteq> ident c) [0..<12]"

definition pick_up_notice :: "Lobby \<Rightarrow> FloorItem \<Rightarrow> nat \<Rightarrow> nat \<Rightarrow> 32 word \<Rightarrow> nat \<Rightarrow> Event" where
  "pick_up_notice l fi client_id fl i z =
     (case client_at l z of
        Some lc \<Rightarrow>
          if bit (visibility_flags fi) z then SendPickUpItem (ident lc) client_id i fl
          else SendCreateInventoryItem (ident lc) client_id (fi_data fi)
      | None \<Rightarrow> LogWarning ''empty slot'')"

text \<open>The client an event is addressed to, for the events that go to one client.\<close>

definition recipient :: "Event \<Rightarrow> nat option" where
  "recipient e =
     (case e of
        SendCommand k _ _ _ \<Rightarrow> Some k
      | QueueJoinCommand k _ _ _ \<Rightarrow> Some k
      | SendTextMessage k _ \<Rightarrow> Some k
      | SendPickUpItem k _ _ _ \<Rightarrow> Some k
      | SendCreateInventoryItem k _ _ \<Rightarrow> Some k
      | SendDropItem k _ _ _ _ _ _ \<Rightarrow> Some k
      | _ \<Rightarrow> None)"

definition example_weapon :: ItemData where
  "example_weapon = \<lparr>data1 = [0x00, 0x01, 0x00, 0x00, 0x00, 0x00, 0, 0, 0, 0, 0, 0],
                      item_id = 0x00810005, data2d = 0\<rparr>"

definition example_floor_item :: FloorItem where
  "example_floor_item =
     \<lparr>fi_data = example_weapon, fi_x = 0, fi_z = 0, visibility_flags = 0x0005\<rparr>"

definition example_game :: Lobby where
  "example_game =
     (example_lobby SERVER_DUPLICATE GC_V3 example_players)
       \<lparr>floor_items := (\<lambda>k. None)((2, 0x00810005) \<mapsto> example_floor_item)\<rparr>"

text \<open>
  The slots a duplicated drop is made for, in the order of the slots; and the
  floor item made for a slot under an identifier.
\<close>

definition eligible_slots :: "DropRequest \<Rightarrow> Lobby \<Rightarrow> nat list" where
  "eligible_slots rq l =
     filter (\<lambda>z. case client_at l z of None \<Rightarrow> False | Some lc \<Rightarrow> drop_eligible rq lc)
       [0..<length (clients l)]"

definition dropped_item :: "DropRequest \<Rightarrow> DropResult \<Rightarrow> 32 word \<Rightarrow> 16 word \<Rightarrow> FloorItem" where
  "dropped_item rq res i vis =
     \<lparr>fi_data = (dr_item res)\<lparr>item_id := i\<rparr>, fi_x = rq_x rq, fi_z = rq_z rq,
      visibility_flags = vis\<rparr>"

text \<open>
  The lobby holds every client in the slot that the client itself records.
\<close>

definition slots_consistent :: "Lobby \<Rightarrow> bool" where
  "slots_consistent l =
     (\<forall>z < length (clients l). case clients l ! z of None \<Rightarrow> True | Some lc \<Rightarrow> lobby_client_id lc = z)"

fun occupied :: "Client option list \<Rightarrow> Client list" where
  "occupied [] = []"
| "occupied (None # cs) = occupied cs"
| "occupied (Some c # cs) = c # occupied cs"

fun drop_table ::
  "DropRequest \<Rightarrow> DropResult \<Rightarrow> Client list \<Rightarrow> 32 word
     \<Rightarrow> (nat \<times> 32 word \<Rightarrow> FloorItem option) \<Rightarrow> (nat \<times> 32 word \<Rightarrow> FloorItem option)" where
  "drop_table rq res [] b f = f"
| "drop_table rq res (lc # es) b f =
     drop_table rq res es (b + 1)
       (f((unat (rq_floor rq), b) \<mapsto> dropped_item rq res b (push_bit (lobby_client_id lc) 1)))"

definition example_drop_request :: DropRequest where
  "example_drop_request =
     \<lparr>rq_subcommand = 0xA2, rq_entity_id = 0x0123, rq_floor = 2, rq_rt_index = 0x05,
      rq_x = 0x42C80000, rq_z = 0x43480000, rq_ignore_def = 0, rq_effective_area = 2,
      rq_param3 = 0, rq_param4 = 0, rq_param5 = 0, rq_param6 = 0\<rparr>"

definition example_drop_externals :: Externals where
  "example_drop_externals =
     example_externals\<lparr>decode_drop_request := (\<lambda>d. Some (Format_6xA2, example_drop_request)),
       item_creator := (\<lambda>call n. \<lparr>dr_item = example_weapon, is_from_rare_table = False\<rparr>)\<rparr>"

definition example_four_players :: "Client option list" where
  "example_four_players = [Some (example_client 0 GC_V3), Some (example_client 1 GC_V3),
                           Some (example_client 2 GC_V3), Some (example_client 3 GC_V3)]"

definition example_split :: SplitStackCommand where
  "example_split =
     \<lparr>ss_client_id = 0, ss_floor = 2, ss_x = 0x42C80000, ss_z = 0x43480000,
      ss_item_id = 0x00AB0005, ss_amount = 3\<rparr>"

definition example_delete :: DeleteItemCommand where
  "example_delete = \<lparr>di_client_id = 0, di_item_id = 0x00AB0005, di_amount = 3\<rparr>"

text \<open>
  The two commands of the split as they come off the wire: the 6xC3 of slot 0
  for three of the item \<open>0x00AB0005\<close> at a place on floor 2, and the 6x29
  for the same item and amount that the client sends after it.
\<close>

definition example_split_data :: "byte list" where
  "example_split_data =
     [0xC3, 0x06, 0x00, 0x00, 0x02, 0x00, 0x00, 0x00, 0x00, 0x00, 0xC8, 0x42,
      0x00, 0x00, 0x48, 0x43, 0x05, 0x00, 0xAB, 0x00, 0x03, 0x00, 0x00, 0x00]"

definition example_delete_data :: "byte list" where
  "example_delete_data =
     [0x29, 0x03, 0x00, 0x00, 0x05, 0x00, 0xAB, 0x00, 0x03, 0x00, 0x00, 0x00]"

definition example_bb_externals :: Externals where
  "example_bb_externals =
     example_externals\<lparr>
       decode_split_stack := (\<lambda>d. if d = example_split_data then Some example_split else None),
       decode_delete_item := (\<lambda>d. if d = example_delete_data then Some example_delete else None)\<rparr>"

definition example_inventory :: "ItemData list" where
  "example_inventory = [example_weapon, example_item]"

definition example_bb_game :: Lobby where
  "example_bb_game =
     example_lobby CLIENT BB_V4
       [Some (example_client 0 BB_V4), Some (example_client 1 BB_V4), None, None]"

text \<open>
  A direct pick-up and a pick-up request of slot 0 for the item
  \<open>0x00810005\<close> on floor 2, and collaborators that read them.
\<close>

definition example_pick_up :: "byte list" where
  "example_pick_up =
     [0x59, 0x03, 0x00, 0x00, 0x00, 0x00, 0x02, 0x00, 0x05, 0x00, 0x81, 0x00]"

definition example_pick_up_request :: "byte list" where
  "example_pick_up_request =
     [0x5A, 0x03, 0x00, 0x00, 0x05, 0x00, 0x81, 0x00, 0x02, 0x00, 0x00, 0x00]"

definition example_pick_up_externals :: Externals where
  "example_pick_up_externals =
     example_externals\<lparr>
       decode_pick_up := (\<lambda>d. if d = example_pick_up
          then Some \<lparr>pu_client_id = 0, pu_floor = 2, pu_item_id = 0x00810005\<rparr> else None),
       decode_pick_up_request := (\<lambda>d. if d = example_pick_up_request
          then Some \<lparr>pu_client_id = 0, pu_floor = 2, pu_item_id = 0x00810005\<rparr> else None)\<rparr>"

text \<open>
  The part split off the example stack, under the identifier it is given, and
  the example game after the split.
\<close>

definition example_split_part :: ItemData where
  "example_split_part =
     \<lparr>data1 = [0x03, 0x00, 0x00, 0x00, 0x00, 0x03, 0, 0, 0, 0, 0, 0],
      item_id = 0x00010000, data2d = 0\<rparr>"

definition example_bb_game_split :: Lobby where
  "example_bb_game_split =
     example_bb_game\<lparr>
       next_item_id_for_client := [0x00010001, 0x00210000, 0x00410000, 0x00610000],
       floor_items := (\<lambda>k. None)((2, 0x00010000) \<mapsto>
          \<lparr>fi_data = example_split_part, fi_x = 0x42C80000, fi_z = 0x43480000,
           visibility_flags = 0x00F\<rparr>)\<rparr>"

section \<open>Properties of the channel\<close>

subsection \<open>Facts about the cipher model and the headers\<close>

lemma length_keystream_xor: "length (keystream_xor e k d) = length d"
  by (simp add: keystream_xor_def)

lemma keystream_xor_Nil: "keystream_xor e k [] = []"
  by (simp add: keystream_xor_def)

lemma keystream_xor_Cons:
  "keystream_xor e k (x # xs) = (x XOR stream e k) # keystream_xor e (Suc k) xs"
  by (simp add: keystream_xor_def)

lemma keystream_xor_drop: "drop n (keystream_xor e k d) = keystream_xor e (k + n) (drop n d)"
proof (induction d arbitrary: k n)
  case Nil
  then show ?case by (simp add: keystream_xor_Nil)
next
  case (Cons x xs)
  then show ?case by (cases n) (simp_all add: keystream_xor_Cons keystream_xor_Nil)
qed

lemma keystream_xor_offset: "keystream_xor (e\<lparr>offset := x\<rparr>) k d = keystream_xor e k d"
  by (simp add: keystream_xor_def)

lemma xor_twice: "(a XOR b) XOR b = (a::byte)"
  by (simp add: xor.assoc)

lemma keystream_xor_involutive: "keystream_xor e k (keystream_xor e k d) = d"
  by (induction d arbitrary: k) (simp_all add: keystream_xor_Cons keystream_xor_Nil xor_twice)

lemma length_header_bytes: "length (header_bytes v c f n) = sizeof_header v"
  by (cases v) (simp_all add: header_bytes_def sizeof_header_def le16_def le32_def)

lemma rd16_le16: "rd16 (le16 w @ r) 0 = w"
  unfolding rd16_def le16_def
  apply simp
  apply (rule bit_word_eqI)
  apply (auto simp add: bit_simps)
  done

lemma rd16_le16_2: "rd16 (a # b # le16 w @ r) 2 = w"
  unfolding rd16_def le16_def
  apply (simp add: numeral_2_eq_2)
  apply (rule bit_word_eqI)
  apply (auto simp add: bit_simps)
  done

lemma header_size_field_bytes:
  "n < 2 ^ 16 \<Longrightarrow> header_size_field v (header_bytes v c f n @ r) = n"
  by (cases v)
     (simp_all add: header_size_field_def header_bytes_def rd16_le16 rd16_le16_2 unat_of_nat)

lemma header_size_field_bound: "header_size_field v h < 2 ^ 16"
proof -
  have "unat (w :: 16 word) < 2 ^ 16" for w
    using unsigned_less [of w, where ?'a = nat] by simp
  then show ?thesis by (cases v) (simp_all add: header_size_field_def)
qed

subsection \<open>Facts about the sizes\<close>

lemma clear_low_dvd: "k dvd clear_low k x"
  by (simp add: clear_low_def minus_mod_eq_mult_div)

lemma clear_low_ge: "0 < k \<Longrightarrow> n \<le> clear_low k (n + (k - 1))"
proof -
  assume k: "0 < k"
  have "(n + (k - 1)) mod k \<le> k - 1" using k
    by (metis Suc_pred' less_Suc_eq_le mod_less_divisor)
  then show ?thesis by (simp add: clear_low_def)
qed

lemma clear_low_less: "0 < k \<Longrightarrow> clear_low k (n + (k - 1)) < n + k"
  by (simp add: clear_low_def less_imp_diff_less)

lemma size_t_add_small: "a + b < 2 ^ 64 \<Longrightarrow> size_t_add a b = a + b"
  by (simp add: size_t_add_def)

lemma send_data_size_nowrap:
  assumes "n + 15 < 2 ^ 64"
  shows "send_data_size v enc n =
    (if v = BB then (if enc then clear_low 8 (8 + n + 7) else 8 + n)
     else (if enc then clear_low 4 (4 + n + 3) else 4 + n))"
  using assms by (simp add: send_data_size_def size_t_add_small)

lemma logical_size_nowrap:
  assumes "n + 15 < 2 ^ 64"
  shows "logical_size v enc n =
    (if v = BB then clear_low 4 (8 + n + 3)
     else (if enc then clear_low 4 (4 + n + 3) else 4 + n))"
  using assms by (simp add: logical_size_def send_data_size_def size_t_add_small)

lemma send_data_size_ge_header:
  assumes "n + 15 < 2 ^ 64"
  shows "sizeof_header v + n \<le> send_data_size v enc n"
  using assms clear_low_ge [of 8 "8 + n"] clear_low_ge [of 4 "4 + n"]
  by (simp add: send_data_size_nowrap sizeof_header_def add.assoc)

lemma length_resize: "length (resize s n) = n"
  by (simp add: resize_def)

lemma resize_take: "n \<le> length s \<Longrightarrow> resize s n = take n s"
  by (simp add: resize_def)

lemma length_send_frame:
  assumes "n + 15 < 2 ^ 64" and "n = length p"
  shows "length (send_frame v enc c f p) = send_data_size v enc n"
  using send_data_size_ge_header [OF assms(1), of v enc] assms(2)
  by (auto simp add: send_frame_def Let_def length_header_bytes length_resize)

lemma send_frame_header:
  "\<exists>r. send_frame v enc c f p = header_bytes v c f (logical_size v enc (length p)) @ r"
  by (auto simp add: send_frame_def Let_def resize_def length_header_bytes)

lemma send_accept:
  assumes "send_data_size (version ch) (crypt_out ch \<noteq> None) (length p) \<le> 0x7C00"
  shows "send ch c f p =
           (Inr (), ch\<lparr>crypt_out := map_option (\<lambda>e. e\<lparr>offset := offset e +
                          length (send_frame (version ch) (crypt_out ch \<noteq> None) c f p)\<rparr>) (crypt_out ch),
                        output_buf := output_buf ch @
                          (case crypt_out ch of
                             None \<Rightarrow> send_frame (version ch) False c f p
                           | Some e \<Rightarrow> keystream_xor e (offset e) (send_frame (version ch) True c f p))\<rparr>)"
  using assms
  by (cases "crypt_out ch") (auto simp add: send_def Let_def encrypt_def crypt_def)

lemma send_reject:
  assumes "send_data_size (version ch) (crypt_out ch \<noteq> None) (length p) > 0x7C00"
  shows "send ch c f p = (Inl (runtime_error ''outbound command too large''), ch)"
  using assms by (simp add: send_def Let_def)

subsection \<open>Claim C9: oversized frames are rejected before anything is sent\<close>

text \<open>
  C9. \<^verbatim>\<open>send_data_size\<close> is the padded size of the frame as \<^verbatim>\<open>Channel::send\<close>
  computes it. When it exceeds \<open>0x7C00\<close> the call raises the error
  "outbound command too large" and the channel is returned as it was: nothing
  has been appended to the output buffer and the outbound cipher has not
  moved. When it is at most \<open>0x7C00\<close>, and so in particular when it is exactly
  \<open>0x7C00\<close>, the call does not fail.
\<close>

theorem send_rejects_oversized:
  "(0x7C00 < send_data_size (version ch) (crypt_out ch \<noteq> None) (length p) \<longrightarrow>
      send ch c f p = (Inl (runtime_error ''outbound command too large''), ch)) \<and>
   (send_data_size (version ch) (crypt_out ch \<noteq> None) (length p) \<le> 0x7C00 \<longrightarrow>
      fst (send ch c f p) = Inr ())"
  by (simp add: send_reject send_accept)

text \<open>The theorem on an encrypted BB channel, at padded sizes \<open>0x7C08\<close> and \<open>0x7C00\<close>.\<close>

theorem send_rejects_oversized_witness:
  "send (example_channel BB (Some example_cipher) []) 0x60 0 (replicate 0x7BF9 0) =
     (Inl (runtime_error ''outbound command too large''), example_channel BB (Some example_cipher) []) \<and>
   send_data_size BB True (length (replicate 0x7BF8 (0::byte))) = 0x7C00 \<and>
   fst (send (example_channel BB (Some example_cipher) []) 0x60 0 (replicate 0x7BF8 0)) = Inr ()"
  using send_rejects_oversized [of "example_channel BB (Some example_cipher) []" "replicate 0x7BF9 0" "0x60" 0]
        send_rejects_oversized [of "example_channel BB (Some example_cipher) []" "replicate 0x7BF8 0" "0x60" 0]
  by (simp add: example_channel_def send_data_size_def size_t_add_def clear_low_def)

subsection \<open>Claim C1: padding of transmitted frames and the size written in the header\<close>

text \<open>
  C1 (as amended). Let \<open>n\<close> be the header size plus the payload size, \<open>t\<close> the
  number of octets a successful \<^verbatim>\<open>send\<close> appends to the output buffer and \<open>s\<close>
  the size field of the header of the frame. On a BB channel with outbound
  encryption \<open>t\<close> is \<open>n\<close> rounded up to a multiple of 8; on a BB channel
  without encryption \<open>t = n\<close>; in both cases \<open>s\<close> is \<open>n\<close> rounded up to a
  multiple of 4. On the other channels with outbound encryption \<open>t\<close> is \<open>n\<close>
  rounded up to a multiple of 4, without encryption \<open>t = n\<close>, and in both cases
  \<open>s = t\<close>. The appended octets are the frame, encrypted from the current
  keystream position when there is a cipher.
\<close>

theorem send_padding:
  assumes nowrap: "length p + 15 < 2 ^ 64"
      and ok: "send ch c f p = (Inr (), ch')"
  shows "let n = sizeof_header (version ch) + length p;
             frame = send_frame (version ch) (crypt_out ch \<noteq> None) c f p;
             t = length (output_buf ch') - length (output_buf ch);
             s = header_size_field (version ch) frame
         in output_buf ch' = output_buf ch @
              (case crypt_out ch of None \<Rightarrow> frame | Some e \<Rightarrow> keystream_xor e (offset e) frame) \<and>
            length frame = t \<and>
            (if version ch = BB
             then (if crypt_out ch \<noteq> None then 8 dvd t \<and> n \<le> t \<and> t < n + 8 else t = n) \<and>
                  4 dvd s \<and> n \<le> s \<and> s < n + 4
             else (if crypt_out ch \<noteq> None then 4 dvd t \<and> n \<le> t \<and> t < n + 4 else t = n) \<and>
                  s = t)"
proof -
  define v where "v = version ch"
  define enc where "enc = (crypt_out ch \<noteq> None)"
  define frame where "frame = send_frame v enc c f p"
  have acc: "send_data_size v enc (length p) \<le> 0x7C00"
  proof (rule ccontr)
    assume "\<not> send_data_size v enc (length p) \<le> 0x7C00"
    then have "send ch c f p = (Inl (runtime_error ''outbound command too large''), ch)"
      by (simp add: send_reject v_def enc_def)
    with ok show False by simp
  qed
  have ch': "ch' = ch\<lparr>crypt_out := map_option (\<lambda>e. e\<lparr>offset := offset e + length frame\<rparr>) (crypt_out ch),
                        output_buf := output_buf ch @
                          (case crypt_out ch of
                             None \<Rightarrow> send_frame (version ch) False c f p
                           | Some e \<Rightarrow> keystream_xor e (offset e) (send_frame (version ch) True c f p))\<rparr>"
    using send_accept [OF acc [unfolded v_def enc_def], of c f] ok
    by (simp add: frame_def v_def enc_def)
  have out: "output_buf ch' = output_buf ch @
       (case crypt_out ch of None \<Rightarrow> frame | Some e \<Rightarrow> keystream_xor e (offset e) frame)"
    by (cases "crypt_out ch") (simp_all add: ch' frame_def v_def enc_def)
  have t: "length (output_buf ch') - length (output_buf ch) = length frame"
    by (cases "crypt_out ch") (simp_all add: out length_keystream_xor)
  have len: "length frame = send_data_size v enc (length p)"
    unfolding frame_def by (rule length_send_frame [OF nowrap refl])
  have lg_le: "logical_size v enc (length p) \<le> send_data_size v enc (length p) + 3"
    using nowrap
    by (auto simp add: logical_size_nowrap send_data_size_nowrap clear_low_def)
  have s: "header_size_field v frame = logical_size v enc (length p)"
  proof -
    obtain r where "frame = header_bytes v c f (logical_size v enc (length p)) @ r"
      using send_frame_header [of v enc c f p] by (auto simp add: frame_def)
    moreover have "logical_size v enc (length p) < 2 ^ 16"
      using lg_le acc by simp
    ultimately show ?thesis by (simp add: header_size_field_bytes)
  qed
  have sz: "if v = BB
        then (if enc then 8 dvd send_data_size v enc (length p) \<and>
                 8 + length p \<le> send_data_size v enc (length p) \<and>
                 send_data_size v enc (length p) < 8 + length p + 8
              else send_data_size v enc (length p) = 8 + length p) \<and>
             4 dvd logical_size v enc (length p) \<and> 8 + length p \<le> logical_size v enc (length p) \<and>
             logical_size v enc (length p) < 8 + length p + 4
        else (if enc then 4 dvd send_data_size v enc (length p) \<and>
                 4 + length p \<le> send_data_size v enc (length p) \<and>
                 send_data_size v enc (length p) < 4 + length p + 4
              else send_data_size v enc (length p) = 4 + length p) \<and>
             logical_size v enc (length p) = send_data_size v enc (length p)"
    using nowrap clear_low_ge [of 8 "8 + length p"] clear_low_less [of 8 "8 + length p"]
      clear_low_ge [of 4 "8 + length p"] clear_low_less [of 4 "8 + length p"]
      clear_low_ge [of 4 "4 + length p"] clear_low_less [of 4 "4 + length p"]
    by (simp add: logical_size_nowrap send_data_size_nowrap clear_low_dvd add.assoc)
  show ?thesis
    unfolding Let_def v_def [symmetric] enc_def [symmetric] frame_def [symmetric] t s
    using sz out by (simp add: len sizeof_header_def split: if_splits)
qed

lemma replicate_numeral_unfold: "replicate (numeral k) x = x # replicate (pred_numeral k) x"
  by (simp add: numeral_eq_Suc)

text \<open>
  The theorem at a one-octet payload on an encrypted BB channel: 16 octets
  are sent and the header says 12.
\<close>

theorem send_padding_witness:
  "length [1::byte] + 15 < (2::nat) ^ 64 \<and>
   send (example_channel BB (Some example_cipher) []) 0x60 0 [1] =
     (Inr (), \<lparr>version = BB, crypt_in = Some example_cipher,
               crypt_out = Some (example_cipher\<lparr>offset := 19\<rparr>), input_buf = [],
               output_buf = [0xF3, 0xFF, 0x9F, 0xFF, 0xFF, 0xFF, 0xFF, 0xFF,
                             0xFE, 0xFF, 0xFF, 0xFF, 0xFF, 0xFF, 0xFF, 0xFF]\<rparr>) \<and>
   header_size_field BB (send_frame BB True 0x60 0 [1]) = 12"
proof -
  have nw: "length [1::byte] + 15 < (2::nat) ^ 64" by simp
  have ok: "send (example_channel BB (Some example_cipher) []) 0x60 0 [1] =
     (Inr (), \<lparr>version = BB, crypt_in = Some example_cipher,
               crypt_out = Some (example_cipher\<lparr>offset := 19\<rparr>), input_buf = [],
               output_buf = [0xF3, 0xFF, 0x9F, 0xFF, 0xFF, 0xFF, 0xFF, 0xFF,
                             0xFE, 0xFF, 0xFF, 0xFF, 0xFF, 0xFF, 0xFF, 0xFF]\<rparr>)"
    by (simp add: send_def send_frame_def send_data_size_def logical_size_def size_t_add_def
        clear_low_def example_channel_def example_cipher_def header_bytes_def le16_def le32_def
        resize_def encrypt_def crypt_def keystream_xor_def Let_def replicate_numeral_unfold)
  from send_padding [OF nw ok]
  have "4 dvd header_size_field BB (send_frame BB True 0x60 0 [1]) \<and>
        9 \<le> header_size_field BB (send_frame BB True 0x60 0 [1]) \<and>
        header_size_field BB (send_frame BB True 0x60 0 [1]) < 13"
    by (simp add: Let_def example_channel_def sizeof_header_def)
  then have "header_size_field BB (send_frame BB True 0x60 0 [1]) = 12"
    by presburger
  with nw ok show ?thesis by simp
qed

text \<open>
  The claim as first stated fails twice. On a PC channel without encryption a
  one-octet payload is sent as 5 octets, which is not a multiple of 4; and on
  an encrypted BB channel the header of the same payload says 12, while the
  size before padding is 9.
\<close>

theorem send_padding_counterexample:
  "fst (send (example_channel PC None []) 0x60 0 [1]) = Inr () \<and>
   length (output_buf (snd (send (example_channel PC None []) 0x60 0 [1]))) = 5 \<and>
   \<not> 4 dvd length (output_buf (snd (send (example_channel PC None []) 0x60 0 [1]))) \<and>
   fst (send (example_channel BB (Some example_cipher) []) 0x60 0 [1]) = Inr () \<and>
   header_size_field BB (send_frame BB True 0x60 0 [1]) = 12 \<and>
   sizeof_header BB + length [1::byte] = 9"
proof -
  have pc: "send (example_channel PC None []) 0x60 0 [1] =
      (Inr (), (example_channel PC None [])\<lparr>output_buf := [5, 0, 0x60, 0, 1]\<rparr>)"
    by (simp add: send_def send_frame_def send_data_size_def logical_size_def size_t_add_def
        example_channel_def header_bytes_def le16_def resize_def Let_def)
  have len: "length (output_buf (snd (send (example_channel PC None []) 0x60 0 [1]))) = 5"
    by (simp add: pc)
  have nd: "\<not> 4 dvd length (output_buf (snd (send (example_channel PC None []) 0x60 0 [1])))"
    unfolding len by simp
  have bb: "fst (send (example_channel BB (Some example_cipher) []) 0x60 0 [1]) = Inr ()"
    by (simp add: send_def send_data_size_def size_t_add_def clear_low_def example_channel_def
        encrypt_def crypt_def Let_def split_def)
  have fld: "header_size_field BB (send_frame BB True 0x60 0 [1]) = 12"
    by (simp add: send_frame_def send_data_size_def logical_size_def size_t_add_def
        clear_low_def header_bytes_def le16_def le32_def resize_def Let_def
        header_size_field_def rd16_def)
  show ?thesis using pc len nd bb fld by (simp add: sizeof_header_def)
qed

lemma command_logical_le_physical: "command_logical_size ch \<le> command_physical_size ch"
proof -
  have b: "command_logical_size ch < 2 ^ 16"
    unfolding command_logical_size_def by (rule header_size_field_bound)
  then have "command_logical_size ch + 7 < 2 ^ 64" by simp
  then have "size_t_add (command_logical_size ch) 7 = command_logical_size ch + 7"
    by (rule size_t_add_small)
  then show ?thesis
    using clear_low_ge [of 8 "command_logical_size ch"]
    by (simp add: command_physical_size_def)
qed

lemma recv_no_command:
  assumes "length (input_buf ch) < sizeof_header (version ch) \<or>
           length (input_buf ch) < command_physical_size ch"
  shows "recv ch = (Inl (out_of_range ''no command available''), ch)"
  using assms
  by (auto simp add: recv_def Let_def decrypt_in_def command_physical_size_def
        command_logical_size_def peek_header_def decrypt_def crypt_def split: option.splits)

lemma recv_command:
  assumes hs: "sizeof_header (version ch) \<le> length (input_buf ch)"
      and ph: "command_physical_size ch \<le> length (input_buf ch)"
      and lg: "sizeof_header (version ch) \<le> command_logical_size ch"
  shows "recv ch =
     (Inr \<lparr>command = header_command (version ch) (peek_header ch),
           flag = header_flag (version ch) (peek_header ch),
           data = take (command_logical_size ch - sizeof_header (version ch))
                    (drop (sizeof_header (version ch)) (input_plain ch (command_physical_size ch)))\<rparr>,
      ch\<lparr>input_buf := drop (command_physical_size ch) (input_buf ch),
         crypt_in := advance_in ch (command_physical_size ch)\<rparr>)"
proof (cases "crypt_in ch")
  case None
  then show ?thesis using assms command_logical_le_physical [of ch]
    by (simp add: recv_def Let_def decrypt_in_def evbuffer_remove_def command_physical_size_def
        command_logical_size_def peek_header_def input_plain_def advance_in_def resize_take
        min_absorb2 drop_take)
next
  case (Some e)
  show ?thesis
  proof (cases "version ch = BB")
    case True
    with Some show ?thesis using assms command_logical_le_physical [of ch]
      by (simp add: recv_def Let_def decrypt_in_def decrypt_def crypt_def evbuffer_remove_def
        command_physical_size_def command_logical_size_def peek_header_def input_plain_def
        advance_in_def resize_take length_keystream_xor keystream_xor_drop keystream_xor_offset
        min_absorb2 drop_take)
  next
    case False
    with Some show ?thesis using assms
      by (simp add: recv_def Let_def decrypt_in_def decrypt_def crypt_def evbuffer_remove_def
        command_physical_size_def command_logical_size_def peek_header_def input_plain_def
        advance_in_def resize_take length_keystream_xor keystream_xor_drop keystream_xor_offset
        min_absorb2 drop_take)
  qed
qed

subsection \<open>Claim C2: receiving a command\<close>

text \<open>
  C2 (as amended). \<^verbatim>\<open>peek_header\<close> decrypts the header without advancing.
  When the buffer holds fewer octets than the header, or fewer than the
  physical size of the frame, \<^verbatim>\<open>recv\<close> fails with "no command available" and
  the channel is unchanged: no input consumed, the inbound cipher where it
  was. When the buffer holds the whole frame and the size in the header is at
  least the size of the header, \<^verbatim>\<open>recv\<close> removes exactly the physical size
  from the buffer, advances the inbound cipher by exactly that many octets,
  and returns the command, the flag and the payload cut to the logical size,
  every octet decrypted at its own keystream position.
\<close>

theorem recv_contract:
  "(length (input_buf ch) < sizeof_header (version ch) \<or>
    length (input_buf ch) < command_physical_size ch \<longrightarrow>
      recv ch = (Inl (out_of_range ''no command available''), ch)) \<and>
   (sizeof_header (version ch) \<le> length (input_buf ch) \<and>
    command_physical_size ch \<le> length (input_buf ch) \<and>
    sizeof_header (version ch) \<le> command_logical_size ch \<longrightarrow>
      recv ch =
        (Inr \<lparr>command = header_command (version ch) (peek_header ch),
              flag = header_flag (version ch) (peek_header ch),
              data = take (command_logical_size ch - sizeof_header (version ch))
                       (drop (sizeof_header (version ch))
                          (input_plain ch (command_physical_size ch)))\<rparr>,
         ch\<lparr>input_buf := drop (command_physical_size ch) (input_buf ch),
            crypt_in := advance_in ch (command_physical_size ch)\<rparr>))"
  using recv_no_command [of ch] recv_command [of ch] by blast

text \<open>
  The theorem at an encrypted BB frame of logical size 12 and physical size
  16: with only 10 octets buffered nothing happens; with all 16 the command
  \<open>0x60\<close> is returned with its four payload octets and the cipher has moved
  from position 3 to position 19.
\<close>

theorem recv_contract_witness:
  "recv (example_channel BB (Some example_cipher) (take 10 example_input)) =
     (Inl (out_of_range ''no command available''),
      example_channel BB (Some example_cipher) (take 10 example_input)) \<and>
   recv (example_channel BB (Some example_cipher) example_input) =
     (Inr \<lparr>command = 0x60, flag = 0, data = [1, 2, 3, 4]\<rparr>,
      \<lparr>version = BB, crypt_in = Some (example_cipher\<lparr>offset := 19\<rparr>),
       crypt_out = Some example_cipher, input_buf = [], output_buf = []\<rparr>)"
proof -
  let ?c = "example_channel BB (Some example_cipher) example_input"
  let ?d = "example_channel BB (Some example_cipher) (take 10 example_input)"
  have pk: "peek_header ?c = [0x0C, 0, 0x60, 0, 0, 0, 0, 0]"
    by (simp add: peek_header_def example_channel_def example_cipher_def example_input_def
        sizeof_header_def decrypt_def crypt_def keystream_xor_def)
  have pk': "peek_header ?d = [0x0C, 0, 0x60, 0, 0, 0, 0, 0]"
    by (simp add: peek_header_def example_channel_def example_cipher_def example_input_def
        sizeof_header_def decrypt_def crypt_def keystream_xor_def)
  have lg: "command_logical_size ?c = 12" "command_logical_size ?d = 12"
    by (simp_all add: command_logical_size_def pk pk')
       (simp_all add: example_channel_def header_size_field_def rd16_def)
  have ph: "command_physical_size ?c = 16" "command_physical_size ?d = 16"
    by (simp_all add: command_physical_size_def lg)
       (simp_all add: example_channel_def size_t_add_def clear_low_def)
  have pl: "input_plain ?c 16 = [0x0C, 0, 0x60, 0, 0, 0, 0, 0, 1, 2, 3, 4, 0, 0, 0, 0]"
    by (simp add: input_plain_def example_channel_def example_cipher_def example_input_def
        keystream_xor_def)
  have a: "recv ?d = (Inl (out_of_range ''no command available''), ?d)"
    using recv_contract [of ?d]
    by (simp add: ph) (simp add: example_channel_def example_input_def)
  have b: "recv ?c =
     (Inr \<lparr>command = 0x60, flag = 0, data = [1, 2, 3, 4]\<rparr>,
      \<lparr>version = BB, crypt_in = Some (example_cipher\<lparr>offset := 19\<rparr>),
       crypt_out = Some example_cipher, input_buf = [], output_buf = []\<rparr>)"
    using recv_contract [of ?c]
    by (simp add: ph lg pk pl)
       (simp add: example_channel_def example_input_def example_cipher_def sizeof_header_def
          header_command_def header_flag_def rd16_def rd32_def advance_in_def)
  from a b show ?thesis by simp
qed

text \<open>
  Without the condition on the size in the header the claim fails: a BB
  header that announces size 0 is complete in the buffer, yet \<^verbatim>\<open>recv\<close>
  returns no command; it raises a length error after taking the header off
  the buffer.
\<close>

theorem recv_contract_counterexample:
  "sizeof_header BB \<le> length (input_buf (example_channel BB None (replicate 8 0))) \<and>
   command_physical_size (example_channel BB None (replicate 8 0))
     \<le> length (input_buf (example_channel BB None (replicate 8 0))) \<and>
   recv (example_channel BB None (replicate 8 0)) =
     (Inl length_error, example_channel BB None [])"
  by (simp add: recv_def Let_def example_channel_def sizeof_header_def decrypt_in_def
      header_size_field_def rd16_def evbuffer_remove_def command_physical_size_def
      command_logical_size_def peek_header_def replicate_numeral_unfold)

section \<open>Properties of the router\<close>

lemma table_length: "length subcommand_definitions = 256"
  by (simp add: subcommand_definitions_def)

lemma def_6x60: "subcommand_definitions ! 0x60 = mk_def (0x52, 0x59, 0x60, True, 0)"
  by (simp add: subcommand_definitions_def)


lemma def_for_subcommand_final:
  "\<not> is_pre_v1 v \<Longrightarrow> def_for_subcommand v s = Inr (Some (subcommand_definitions ! unat s))"
  by (simp add: def_for_subcommand_def is_pre_v1_def)



subsection \<open>Claim C6: entity-drop requests under the drop modes CLIENT and DISABLED\<close>






subsection \<open>Claim C8: the end-of-state marker of the 6x70 handler\<close>




section \<open>Properties of the item handlers\<close>

lemma client_at_floor_items: "client_at (l\<lparr>floor_items := f\<rparr>) z = client_at l z"
  by (simp add: client_at_def)

lemma pick_up_fan_out_floor_items:
  "pick_up_fan_out c (l\<lparr>floor_items := f\<rparr>) fi k fl i r = pick_up_fan_out c l fi k fl i r"
  by (simp add: pick_up_fan_out_def client_at_floor_items)

lemma restore_floor_item:
  assumes "floor_items l (fl, i) = Some fi" and "item_id (fi_data fi) = i"
  shows "add_floor_item (l\<lparr>floor_items := (floor_items l)((fl, i) := None)\<rparr>) fl fi = l"
proof -
  have "((floor_items l)((fl, i) := None))((fl, i) \<mapsto> fi) = floor_items l"
    using assms(1) by (simp add: fun_upd_idem)
  then show ?thesis using assms(2) by (simp add: add_floor_item_def)
qed

lemma inventory_full_raises:
  assumes "inventory_full_for ext v inven item"
  shows "inventory_add_item ext v inven item = Inl (out_of_range ''inventory is full'')"
  using assms by (auto simp add: inventory_full_for_def inventory_add_item_def Let_def)

lemma pick_up_success:
  assumes gm: "game l" and cid: "client_id = lobby_client_id c"
      and ex: "floor_items l (fl, i) = Some fi"
      and vis: "visible_to_client fi (lobby_client_id c)"
      and add: "inventory_add_item ext (cversion c) inven (fi_data fi) = Inr inven'"
  shows "on_pick_up_item_generic ext c inven (Some l) client_id fl i is_request =
           (None, inven', Some (l\<lparr>floor_items := (floor_items l)((fl, i) := None)\<rparr>),
            pick_up_fan_out c l fi client_id fl i is_request)"
  using assms
  by (simp add: on_pick_up_item_generic_def require_lobby_def item_exists_def remove_item_def
      pick_up_fan_out_floor_items)

subsection \<open>Claim C3: a pick-up that is not visible, or meets a full inventory, is recovered locally\<close>

text \<open>
  C3. In a game, let the participant of slot \<open>client_id\<close> send a pick-up
  (6x59, \<open>is_request\<close> false) or a pick-up request (6x5A, \<open>is_request\<close>
  true) that names a floor item of the table, stored under its own
  identifier. When the visibility mask of the item does not include the slot
  of the sender, the handler raises no error, the inventory is unchanged, the
  lobby with its floor-item table is exactly as before (the item taken out is
  put back), and the only event is one warning in the log: nothing is sent to
  any participant. The same holds when the item is visible to the sender but
  the inventory is full.
\<close>

theorem pick_up_recovered_locally:
  assumes gm: "game l" and cid: "client_id = lobby_client_id c"
      and ex: "floor_items l (fl, i) = Some fi"
      and key: "item_id (fi_data fi) = i"
  shows "(\<not> visible_to_client fi (lobby_client_id c) \<longrightarrow>
            on_pick_up_item_generic ext c inven (Some l) client_id fl i is_request =
              (None, inven, Some l,
               [LogWarning ''Player requests to pick up an item, but is it not visible to them; dropping command''])) \<and>
         (visible_to_client fi (lobby_client_id c) \<and>
          inventory_full_for ext (cversion c) inven (fi_data fi) \<longrightarrow>
            on_pick_up_item_generic ext c inven (Some l) client_id fl i is_request =
              (None, inven, Some l,
               [LogWarning ''Player requests to pick up an item, but their inventory is full; dropping command'']))"
  using gm cid ex restore_floor_item [OF ex key]
  by (auto simp add: on_pick_up_item_generic_def require_lobby_def item_exists_def remove_item_def
      inventory_full_raises is_out_of_range_def)

lemma concat_map_if: "concat (map (\<lambda>z. if P z then [g z] else []) xs) = map g (filter P xs)"
  by (induction xs) simp_all

lemma pick_up_fan_out_eq:
  "pick_up_fan_out c l fi client_id fl i is_request =
     map (pick_up_notice l fi client_id fl i) (notified_slots c l is_request)"
proof -
  have "(\<lambda>z. case client_at l z of
               None \<Rightarrow> []
             | Some lc \<Rightarrow>
                 if \<not> is_request \<and> ident lc = ident c then []
                 else if visible_to_client fi z
                 then [SendPickUpItem (ident lc) client_id i fl]
                 else [SendCreateInventoryItem (ident lc) client_id (fi_data fi)]) =
        (\<lambda>z. if (case client_at l z of None \<Rightarrow> False | Some lc \<Rightarrow> is_request \<or> ident lc \<noteq> ident c)
              then [pick_up_notice l fi client_id fl i z] else [])"
    by (rule ext) (auto simp add: pick_up_notice_def visible_to_client_def split: option.splits)
  then show ?thesis
    by (simp add: pick_up_fan_out_def notified_slots_def concat_map_if)
qed

subsection \<open>Claim C7: the fan-out of a successful pick-up follows the visibility mask\<close>

text \<open>
  C7. When a pick-up succeeds (the item is on the floor, visible to the
  sender, and goes into the inventory), the events of the handler are exactly
  one message for each notified slot, in the order of the slots; and the
  message of a notified slot is the pick-up notification when the bit of that
  slot is set in the visibility mask of the item, and the
  create-inventory-item notification when it is not.
\<close>

theorem pick_up_fan_out_by_visibility:
  assumes gm: "game l" and cid: "client_id = lobby_client_id c"
      and ex: "floor_items l (fl, i) = Some fi"
      and vis: "visible_to_client fi (lobby_client_id c)"
      and add: "inventory_add_item ext (cversion c) inven (fi_data fi) = Inr inven'"
  shows "snd (snd (snd (on_pick_up_item_generic ext c inven (Some l) client_id fl i is_request))) =
           map (pick_up_notice l fi client_id fl i) (notified_slots c l is_request) \<and>
         (\<forall>z \<in> set (notified_slots c l is_request).
            \<exists>lc. client_at l z = Some lc \<and>
              pick_up_notice l fi client_id fl i z =
                (if visible_to_client fi z then SendPickUpItem (ident lc) client_id i fl
                 else SendCreateInventoryItem (ident lc) client_id (fi_data fi)))"
proof -
  have a: "snd (snd (snd (on_pick_up_item_generic ext c inven (Some l) client_id fl i is_request))) =
           map (pick_up_notice l fi client_id fl i) (notified_slots c l is_request)"
    by (simp add: pick_up_success [OF gm cid ex vis add] pick_up_fan_out_eq)
  have b: "\<exists>lc. client_at l z = Some lc \<and>
              pick_up_notice l fi client_id fl i z =
                (if visible_to_client fi z then SendPickUpItem (ident lc) client_id i fl
                 else SendCreateInventoryItem (ident lc) client_id (fi_data fi))"
    if "z \<in> set (notified_slots c l is_request)" for z
    using that
    by (auto simp add: notified_slots_def pick_up_notice_def visible_to_client_def split: option.splits)
  from a b show ?thesis by blast
qed

lemma example_game_facts:
  "game example_game"
  "floor_items example_game (2, 0x00810005) = Some example_floor_item"
  "item_id (fi_data example_floor_item) = 0x00810005"
  "visible_to_client example_floor_item 0"
  "\<not> visible_to_client example_floor_item (Suc 0)"
  "lobby_client_id (example_client k v) = k"
  "cversion (example_client k v) = v"
  "ident (example_client k v) = 100 + k"
  by (simp_all add: example_game_def example_lobby_def example_floor_item_def example_weapon_def
      visible_to_client_def example_client_def)

text \<open>
  The theorem in a game of three clients with one weapon on floor 2, visible
  to slots 0 and 2: slot 1 asks for it; slot 0 asks for it with thirty
  weapons in its inventory.
\<close>

theorem pick_up_recovered_locally_witness:
  "on_pick_up_item_generic example_externals (example_client 1 GC_V3) [] (Some example_game)
     1 2 0x00810005 True =
     (None, [], Some example_game,
      [LogWarning ''Player requests to pick up an item, but is it not visible to them; dropping command'']) \<and>
   on_pick_up_item_generic example_externals (example_client 0 GC_V3) (replicate 30 example_weapon)
     (Some example_game) 0 2 0x00810005 False =
     (None, replicate 30 example_weapon, Some example_game,
      [LogWarning ''Player requests to pick up an item, but their inventory is full; dropping command''])"
proof -
  have full: "inventory_full_for example_externals GC_V3 (replicate 30 example_weapon) example_weapon"
    by (simp add: inventory_full_for_def example_externals_def primary_identifier_def
        example_weapon_def)
  have fd: "fi_data example_floor_item = example_weapon"
    by (simp add: example_floor_item_def)
  from pick_up_recovered_locally [OF example_game_facts(1) _ example_game_facts(2) example_game_facts(3),
         of 1 "example_client 1 GC_V3" example_externals "[]" True]
       pick_up_recovered_locally [OF example_game_facts(1) _ example_game_facts(2) example_game_facts(3),
         of 0 "example_client 0 GC_V3" example_externals "replicate 30 example_weapon" False]
  show ?thesis
    using full by (simp add: example_game_facts fd)
qed

lemma example_slots:
  "notified_slots (example_client 0 GC_V3) example_game True = [0, 1, 2]"
  "notified_slots (example_client 0 GC_V3) example_game False = [1, 2]"
  by code_simp+

lemma example_notices:
  "pick_up_notice example_game example_floor_item 0 2 0x00810005 0 =
     SendPickUpItem 100 0 0x00810005 2"
  "pick_up_notice example_game example_floor_item 0 2 0x00810005 (Suc 0) =
     SendCreateInventoryItem 101 0 example_weapon"
  "pick_up_notice example_game example_floor_item 0 2 0x00810005 2 =
     SendPickUpItem 102 0 0x00810005 2"
  by (simp_all add: pick_up_notice_def client_at_def example_game_def example_lobby_def
      example_players_def example_client_def example_floor_item_def)

lemma example_add:
  "inventory_add_item example_externals GC_V3 [] (fi_data example_floor_item) = Inr [example_weapon]"
  by (simp add: inventory_add_item_def example_externals_def example_floor_item_def
      primary_identifier_def example_weapon_def Let_def)

text \<open>
  The theorem in the same game, for a request of slot 0 with an empty
  inventory: slots 0 and 2 get the pick-up, slot 1 the created item.
\<close>

theorem pick_up_fan_out_by_visibility_witness:
  "snd (snd (snd (on_pick_up_item_generic example_externals (example_client 0 GC_V3) []
     (Some example_game) 0 2 0x00810005 True))) =
     [SendPickUpItem 100 0 0x00810005 2, SendCreateInventoryItem 101 0 example_weapon,
      SendPickUpItem 102 0 0x00810005 2]"
  using pick_up_fan_out_by_visibility [OF example_game_facts(1) _ example_game_facts(2),
      of 0 "example_client 0 GC_V3" example_externals "[]" "[example_weapon]" True]
  by (simp add: example_game_facts example_add example_slots example_notices)

subsection \<open>Claim C10: the requester is told of its own pick-up request, the sender of a direct pick-up is not\<close>

text \<open>
  C10. Let a client that the lobby holds in the slot it records send a command
  that names this slot and a floor item which is visible to it and goes into
  its inventory. When the command is a pick-up request (the handler of 6x5A),
  the events are one notification for each occupied slot, and among them is
  the pick-up notification addressed to the sender itself. When the command is
  a direct pick-up (the handler of 6x59), the events are one notification for
  each occupied slot but that of the sender, and no event is addressed to the
  sender.
\<close>

theorem pick_up_handlers_requester:
  assumes gm: "game l"
      and ex: "floor_items l (fl, i) = Some fi"
      and vis: "visible_to_client fi (lobby_client_id c)"
      and add: "inventory_add_item ext (cversion c) inven (fi_data fi) = Inr inven'"
      and slot: "lobby_client_id c < 12" "client_at l (lobby_client_id c) = Some c"
      and rq: "decode_pick_up_request ext request =
                 Some \<lparr>pu_client_id = lobby_client_id c, pu_floor = fl, pu_item_id = i\<rparr>"
      and pu: "decode_pick_up ext direct =
                 Some \<lparr>pu_client_id = lobby_client_id c, pu_floor = fl, pu_item_id = i\<rparr>"
  shows "snd (snd (snd (on_pick_up_item_request ext c inven (Some l) request))) =
           map (pick_up_notice l fi (lobby_client_id c) fl i) (notified_slots c l True) \<and>
         SendPickUpItem (ident c) (lobby_client_id c) i fl
           \<in> set (snd (snd (snd (on_pick_up_item_request ext c inven (Some l) request)))) \<and>
         snd (snd (snd (on_pick_up_item ext c inven (Some l) direct))) =
           map (pick_up_notice l fi (lobby_client_id c) fl i) (notified_slots c l False) \<and>
         (\<forall>e \<in> set (snd (snd (snd (on_pick_up_item ext c inven (Some l) direct)))).
            recipient e \<noteq> Some (ident c))"
proof -
  let ?k = "lobby_client_id c"
  have evr: "snd (snd (snd (on_pick_up_item_request ext c inven (Some l) request))) =
           map (pick_up_notice l fi ?k fl i) (notified_slots c l True)"
    by (simp add: on_pick_up_item_request_def rq pick_up_success [OF gm refl ex vis add]
        pick_up_fan_out_eq)
  have evd: "snd (snd (snd (on_pick_up_item ext c inven (Some l) direct))) =
           map (pick_up_notice l fi ?k fl i) (notified_slots c l False)"
    by (simp add: on_pick_up_item_def pu pick_up_success [OF gm refl ex vis add]
        pick_up_fan_out_eq)
  have mem: "?k \<in> set (notified_slots c l True)"
    using slot by (simp add: notified_slots_def)
  have nt: "pick_up_notice l fi ?k fl i ?k = SendPickUpItem (ident c) ?k i fl"
    using slot vis by (simp add: pick_up_notice_def visible_to_client_def)
  have a: "SendPickUpItem (ident c) ?k i fl
           \<in> set (snd (snd (snd (on_pick_up_item_request ext c inven (Some l) request))))"
    unfolding evr using mem nt by (metis image_eqI set_map)
  have b: "recipient (pick_up_notice l fi ?k fl i z) \<noteq> Some (ident c)"
    if "z \<in> set (notified_slots c l False)" for z
    using that
    by (auto simp add: notified_slots_def pick_up_notice_def recipient_def split: option.splits)
  have "\<forall>e \<in> set (snd (snd (snd (on_pick_up_item ext c inven (Some l) direct)))).
            recipient e \<noteq> Some (ident c)"
    unfolding evd using b by auto
  with evr evd a show ?thesis by blast
qed

lemma example_pick_up_facts:
  "decode_pick_up_request example_pick_up_externals example_pick_up_request =
     Some \<lparr>pu_client_id = lobby_client_id (example_client 0 GC_V3), pu_floor = 2,
           pu_item_id = 0x00810005\<rparr>"
  "decode_pick_up example_pick_up_externals example_pick_up =
     Some \<lparr>pu_client_id = lobby_client_id (example_client 0 GC_V3), pu_floor = 2,
           pu_item_id = 0x00810005\<rparr>"
  "inventory_add_item example_pick_up_externals (cversion (example_client 0 GC_V3)) []
     (fi_data example_floor_item) = Inr [example_weapon]"
  "client_at example_game (lobby_client_id (example_client 0 GC_V3)) =
     Some (example_client 0 GC_V3)"
  "lobby_client_id (example_client 0 GC_V3) < 12"
  "visible_to_client example_floor_item (lobby_client_id (example_client 0 GC_V3))"
  by (simp_all add: example_pick_up_externals_def example_externals_def example_client_def
      inventory_add_item_def example_floor_item_def primary_identifier_def example_weapon_def
      Let_def client_at_def example_game_def example_lobby_def example_players_def
      visible_to_client_def)

text \<open>
  The theorem in the game of three clients with the weapon on floor 2, for the
  client of slot 0 (identity 100): its request is answered to the slots 0, 1
  and 2, its direct pick-up to the slots 1 and 2.
\<close>

theorem pick_up_handlers_requester_witness:
  "snd (snd (snd (on_pick_up_item_request example_pick_up_externals (example_client 0 GC_V3) []
          (Some example_game) example_pick_up_request))) =
     [SendPickUpItem 100 0 0x00810005 2, SendCreateInventoryItem 101 0 example_weapon,
      SendPickUpItem 102 0 0x00810005 2] \<and>
   snd (snd (snd (on_pick_up_item example_pick_up_externals (example_client 0 GC_V3) []
          (Some example_game) example_pick_up))) =
     [SendCreateInventoryItem 101 0 example_weapon, SendPickUpItem 102 0 0x00810005 2]"
proof -
  note t = pick_up_handlers_requester [OF example_game_facts(1) example_game_facts(2)
      example_pick_up_facts(6) example_pick_up_facts(3) example_pick_up_facts(5)
      example_pick_up_facts(4) example_pick_up_facts(1) example_pick_up_facts(2)]
  have k: "lobby_client_id (example_client 0 GC_V3) = 0" by (simp add: example_client_def)
  from t [THEN conjunct1] t [THEN conjunct2, THEN conjunct2, THEN conjunct1]
  show ?thesis
    by (simp add: k example_slots example_notices)
qed

section \<open>Properties of the entity drop\<close>

lemma generate_server_id:
  "generate_item_id l 0xFF = (next_game_item_id l, l\<lparr>next_game_item_id := next_game_item_id l + 1\<rparr>)"
  by (simp add: generate_item_id_def)

lemma create_item_for_eq:
  "create_item_for ext rq res lc l =
     (l\<lparr>next_game_item_id := next_game_item_id l + 1,
        floor_items := (floor_items l)((unat (rq_floor rq), next_game_item_id l) \<mapsto>
           dropped_item rq res (next_game_item_id l) (push_bit (lobby_client_id lc) 1))\<rparr>,
      SendDropItem (ident lc) ((dr_item res)\<lparr>item_id := next_game_item_id l\<rparr>)
        (rq_rt_index rq \<noteq> 0x30) (unat (rq_floor rq)) (rq_x rq) (rq_z rq) (rq_entity_id rq)
      # send_rare_notification_if_needed ext lc ((dr_item res)\<lparr>item_id := next_game_item_id l\<rparr>)
          (is_from_rare_table res))"
  by (simp add: create_item_for_def generate_server_id add_item_def add_floor_item_def
      dropped_item_def Let_def)

lemma duplicate_loop_state:
  "fst (duplicate_loop ext rq res cs l) =
     l\<lparr>next_game_item_id :=
          next_game_item_id l + of_nat (length (filter (drop_eligible rq) (occupied cs))),
        floor_items :=
          drop_table rq res (filter (drop_eligible rq) (occupied cs)) (next_game_item_id l)
            (floor_items l)\<rparr>"
proof (induction cs arbitrary: l)
  case Nil
  show ?case by simp
next
  case (Cons a cs)
  show ?case
  proof (cases a)
    case None
    then show ?thesis using Cons.IH [of l] by simp
  next
    case (Some lc)
    show ?thesis
    proof (cases "drop_eligible rq lc")
      case True
      then show ?thesis
        using Cons.IH [of "fst (create_item_for ext rq res lc l)"] Some
        by (simp add: split_def create_item_for_eq add.assoc fun_upd_def)
    next
      case False
      then show ?thesis using Cons.IH [of l] Some by simp
    qed
  qed
qed

lemma drop_table_frame:
  "key \<notin> (\<lambda>n. (unat (rq_floor rq), b + of_nat n)) ` {..<length es}
     \<Longrightarrow> drop_table rq res es b f key = f key"
proof (induction es arbitrary: b f)
  case Nil
  show ?case by simp
next
  case (Cons lc es)
  have tail: "key \<notin> (\<lambda>n. (unat (rq_floor rq), (b + 1) + of_nat n)) ` {..<length es}"
  proof
    assume "key \<in> (\<lambda>n. (unat (rq_floor rq), (b + 1) + of_nat n)) ` {..<length es}"
    then obtain n where n: "n < length es" "key = (unat (rq_floor rq), (b + 1) + of_nat n)"
      by auto
    have "key = (unat (rq_floor rq), b + of_nat (Suc n))" using n(2) by (simp add: add.assoc)
    moreover have "Suc n \<in> {..<length (lc # es)}" using n(1) by simp
    ultimately show False using Cons.prems by blast
  qed
  have head: "key \<noteq> (unat (rq_floor rq), b)"
  proof
    assume "key = (unat (rq_floor rq), b)"
    then have "key = (unat (rq_floor rq), b + of_nat 0)" by simp
    moreover have "0 \<in> {..<length (lc # es)}" by simp
    ultimately show False using Cons.prems by blast
  qed
  show ?case using Cons.IH [OF tail] head by simp
qed

lemma word32_of_nat_Suc_neq_0:
  assumes "Suc n < 2 ^ 32"
  shows "(1 + of_nat n :: 32 word) \<noteq> 0"
proof
  assume "(1 + of_nat n :: 32 word) = 0"
  then have "(of_nat (Suc n) :: 32 word) = 0" by simp
  then have "unat (of_nat (Suc n) :: 32 word) = 0" by simp
  moreover have "unat (of_nat (Suc n) :: 32 word) = Suc n"
    using assms by (simp add: unat_of_nat del: of_nat_Suc)
  ultimately show False by simp
qed

lemma drop_table_lookup:
  "n < length es \<Longrightarrow> length es < 2 ^ 32
     \<Longrightarrow> drop_table rq res es b f (unat (rq_floor rq), b + of_nat n) =
           Some (dropped_item rq res (b + of_nat n) (push_bit (lobby_client_id (es ! n)) 1))"
proof (induction es arbitrary: b f n)
  case Nil
  then show ?case by simp
next
  case (Cons lc es)
  show ?case
  proof (cases n)
    case 0
    have "(unat (rq_floor rq), b) \<notin> (\<lambda>m. (unat (rq_floor rq), (b + 1) + of_nat m)) ` {..<length es}"
    proof
      assume "(unat (rq_floor rq), b) \<in> (\<lambda>m. (unat (rq_floor rq), (b + 1) + of_nat m)) ` {..<length es}"
      then obtain m where m: "m < length es" "b = (b + 1) + of_nat m" by auto
      from m(2) have "(1 + of_nat m :: 32 word) = 0" by (simp add: add.assoc)
      moreover have "Suc m < 2 ^ 32" using m(1) Cons.prems(2) by simp
      ultimately show False using word32_of_nat_Suc_neq_0 by blast
    qed
    from drop_table_frame [OF this] show ?thesis using 0 by simp
  next
    case (Suc m)
    have "m < length es" "length es < 2 ^ 32" using Cons.prems Suc by simp_all
    from Cons.IH [OF this, of "b + 1"] show ?thesis using Suc by (simp add: add.assoc)
  qed
qed

lemma occupied_slots:
  "(\<forall>z < length cs. case cs ! z of None \<Rightarrow> True | Some lc \<Rightarrow> lobby_client_id lc = k + z)
     \<Longrightarrow> map lobby_client_id (filter P (occupied cs)) =
           filter (\<lambda>z. case cs ! (z - k) of None \<Rightarrow> False | Some lc \<Rightarrow> P lc) [k..<k + length cs]"
proof (induction cs arbitrary: k)
  case Nil
  show ?case by simp
next
  case (Cons a cs)
  have tl: "\<forall>z < length cs. case cs ! z of None \<Rightarrow> True | Some lc \<Rightarrow> lobby_client_id lc = Suc k + z"
  proof (intro allI impI)
    fix z assume "z < length cs"
    then have "Suc z < length (a # cs)" by simp
    with Cons.prems have "case (a # cs) ! Suc z of None \<Rightarrow> True | Some lc \<Rightarrow> lobby_client_id lc = k + Suc z"
      by blast
    then show "case cs ! z of None \<Rightarrow> True | Some lc \<Rightarrow> lobby_client_id lc = Suc k + z"
      by (simp split: option.splits)
  qed
  have hd: "case a of None \<Rightarrow> True | Some lc \<Rightarrow> lobby_client_id lc = k"
    using Cons.prems [rule_format, of 0] by (simp split: option.splits)
  have shift: "filter (\<lambda>z. case (a # cs) ! (z - k) of None \<Rightarrow> False | Some lc \<Rightarrow> P lc) [Suc k..<Suc k + length cs] =
               filter (\<lambda>z. case cs ! (z - Suc k) of None \<Rightarrow> False | Some lc \<Rightarrow> P lc) [Suc k..<Suc k + length cs]"
  proof (rule filter_cong [OF refl])
    fix z assume "z \<in> set [Suc k..<Suc k + length cs]"
    then have "z - k = Suc (z - Suc k)" by auto
    then show "(case (a # cs) ! (z - k) of None \<Rightarrow> False | Some lc \<Rightarrow> P lc) =
               (case cs ! (z - Suc k) of None \<Rightarrow> False | Some lc \<Rightarrow> P lc)" by simp
  qed
  have upt: "[k..<k + length (a # cs)] = k # [Suc k..<Suc k + length cs]"
    by (subst upt_rec) simp
  show ?case
    unfolding upt using Cons.IH [OF tl] hd shift
    by (cases a) simp_all
qed

lemma eligible_slots_eq:
  assumes "slots_consistent l"
  shows "map lobby_client_id (filter (drop_eligible rq) (occupied (clients l))) = eligible_slots rq l"
proof -
  have "\<forall>z < length (clients l). case clients l ! z of None \<Rightarrow> True | Some lc \<Rightarrow> lobby_client_id lc = 0 + z"
    using assms by (simp add: slots_consistent_def split: option.splits)
  from occupied_slots [OF this, of "drop_eligible rq"]
  have "map lobby_client_id (filter (drop_eligible rq) (occupied (clients l))) =
        filter (\<lambda>z. case clients l ! z of None \<Rightarrow> False | Some lc \<Rightarrow> drop_eligible rq lc)
          [0..<length (clients l)]" by simp
  also have "\<dots> = eligible_slots rq l"
    unfolding eligible_slots_def
    by (rule filter_cong [OF refl]) (simp add: client_at_def)
  finally show ?thesis .
qed

lemma length_occupied: "length (occupied cs) \<le> length cs"
  by (induction cs rule: occupied.induct) simp_all

lemma check_entity_keeps:
  assumes "check_entity ext c l rq = Inr (rq', rt, ev)"
  shows "rq_floor rq' = rq_floor rq \<and> rq_x rq' = rq_x rq \<and> rq_z rq' = rq_z rq
         \<and> rq_rt_index rq' = rq_rt_index rq \<and> rq_entity_id rq' = rq_entity_id rq"
  using assms
  by (auto simp: check_entity_def check_box_def check_enemy_def Let_def
      split: if_splits option.splits sum.splits)

lemma mark_drop_checked_frame:
  assumes "mark_drop_checked l is_box k = (d, l1)"
  shows "clients l1 = clients l \<and> floor_items l1 = floor_items l
         \<and> next_game_item_id l1 = next_game_item_id l
         \<and> next_item_id_for_client l1 = next_item_id_for_client l
         \<and> drop_mode l1 = drop_mode l"
  using assms
  by (auto simp: mark_drop_checked_def split: if_splits option.splits)

lemma generate_item_frame:
  assumes "generate_item ext l cmd rt = (res, l2)"
  shows "clients l2 = clients l \<and> floor_items l2 = floor_items l
         \<and> next_game_item_id l2 = next_game_item_id l
         \<and> next_item_id_for_client l2 = next_item_id_for_client l
         \<and> drop_mode l2 = drop_mode l"
  using assms by (auto simp: generate_item_def Let_def)

lemma dropped_item_cong:
  "rq_floor rq' = rq_floor rq \<and> rq_x rq' = rq_x rq \<and> rq_z rq' = rq_z rq
     \<Longrightarrow> dropped_item rq' res i vis = dropped_item rq res i vis"
  by (simp add: dropped_item_def)

section \<open>Server drops\<close>

lemma server_drop_duplicate:
  assumes mode: "drop_mode l = SERVER_DUPLICATE"
    and gen: "generate_item ext l rq rt = (res, l2)"
    and full: "\<not> item_empty ext (dr_item res)"
  shows "server_drop ext rq rt l = duplicate_loop ext rq res (clients l2) l2"
  using assms by (simp add: server_drop_def)

lemma server_drop_shared:
  assumes mode: "drop_mode l = SERVER_SHARED"
    and gen: "generate_item ext l rq rt = (res, l2)"
    and full: "\<not> item_empty ext (dr_item res)"
  shows "server_drop ext rq rt l = shared_drop ext rq res l2"
  using assms by (simp add: server_drop_def)

lemma shared_drop_state:
  "fst (shared_drop ext rq res l) =
     l\<lparr>next_game_item_id := next_game_item_id l + 1,
       floor_items := (floor_items l)((unat (rq_floor rq), next_game_item_id l) \<mapsto>
          dropped_item rq res (next_game_item_id l) 0x00F)\<rparr>"
  by (simp add: shared_drop_def generate_server_id add_item_def add_floor_item_def
      dropped_item_def Let_def)

lemma entity_drop_server:
  assumes "game l" and "drop_mode l = SERVER_DUPLICATE \<or> drop_mode l = SERVER_SHARED"
    and "read_drop_request ext dat = Inr rq"
    and "check_entity ext c l rq = Inr (rq', rt, ev)"
    and "mark_drop_checked l (rq_rt_index rq = 0x30) (unat (rq_entity_id rq')) = (True, l1)"
  shows "on_entity_drop_item_request ext c (Some l) cmd flg dat =
           (None, Some (fst (server_drop ext rq' rt l1)), ev @ snd (server_drop ext rq' rt l1))"
  using assms
  by (auto simp: on_entity_drop_item_request_def require_lobby_def split_def)

text \<open>
  Claim C4. A request for the drop of an entity that produces an item, in a
  game whose slots hold their own clients: under \<open>SERVER_DUPLICATE\<close> the
  floor of the drop gains one item for every eligible slot (the occupied slots
  whose client is on that floor, or all occupied slots for a box), in the order
  of the slots, the \<open>n\<close>-th under the \<open>n\<close>-th next identifier of the
  server's progression and visible to its slot alone (mask \<open>1 << slot\<close>);
  under \<open>SERVER_SHARED\<close> it gains one item, under the next identifier of
  the server's progression and with the mask \<open>0x00F\<close>. Nothing else on the
  floors changes, the server's progression moves on by the number of items
  created, and the progressions of the participants stay as they were.
\<close>

theorem server_drop_creates_items:
  assumes "game l"
    and "drop_mode l = SERVER_DUPLICATE \<or> drop_mode l = SERVER_SHARED"
    and "read_drop_request ext dat = Inr rq"
    and "check_entity ext c l rq = Inr (rq', rt, ev)"
    and "mark_drop_checked l (rq_rt_index rq = 0x30) (unat (rq_entity_id rq')) = (True, l1)"
    and "generate_item ext l1 rq' rt = (res, l2)"
    and "\<not> item_empty ext (dr_item res)"
    and "slots_consistent l" and "length (clients l) \<le> 12"
  shows "\<exists>l' ev'.
           on_entity_drop_item_request ext c (Some l) cmd flg dat = (None, Some l', ev @ ev')
           \<and> next_item_id_for_client l' = next_item_id_for_client l
           \<and> (drop_mode l = SERVER_DUPLICATE \<longrightarrow>
                (\<forall>n < length (eligible_slots rq l).
                   floor_items l' (unat (rq_floor rq), next_game_item_id l + of_nat n) =
                     Some (dropped_item rq res (next_game_item_id l + of_nat n)
                             (push_bit (eligible_slots rq l ! n) 1)))
                \<and> (\<forall>key. key \<notin> (\<lambda>n. (unat (rq_floor rq), next_game_item_id l + of_nat n))
                                    ` {..<length (eligible_slots rq l)}
                       \<longrightarrow> floor_items l' key = floor_items l key)
                \<and> next_game_item_id l' =
                    next_game_item_id l + of_nat (length (eligible_slots rq l)))
           \<and> (drop_mode l = SERVER_SHARED \<longrightarrow>
                floor_items l' =
                  (floor_items l)((unat (rq_floor rq), next_game_item_id l) \<mapsto>
                     dropped_item rq res (next_game_item_id l) 0x00F)
                \<and> next_game_item_id l' = next_game_item_id l + 1)"
proof -
  let ?l' = "fst (server_drop ext rq' rt l1)"
  let ?es = "filter (drop_eligible rq') (occupied (clients l))"
  let ?S = "eligible_slots rq l"
  note keep = check_entity_keeps [OF assms(4)]
  note f1 = mark_drop_checked_frame [OF assms(5)]
  note f2 = generate_item_frame [OF assms(6)]
  have el: "drop_eligible rq' = drop_eligible rq"
    using keep by (simp add: drop_eligible_def fun_eq_iff)
  have di: "\<And>i vis. dropped_item rq' res i vis = dropped_item rq res i vis"
    using keep by (simp add: dropped_item_def)
  have slots: "map lobby_client_id ?es = ?S"
    using eligible_slots_eq [OF assms(8), of rq] el by simp
  then have len: "length ?es = length ?S" by (metis length_map)
  have "length ?es \<le> length (clients l)"
    using length_occupied [of "clients l"] length_filter_le [of "drop_eligible rq'" "occupied (clients l)"]
    by linarith
  then have small: "length ?es < 2 ^ 32" using assms(9) by simp
  have run: "on_entity_drop_item_request ext c (Some l) cmd flg dat =
               (None, Some ?l', ev @ snd (server_drop ext rq' rt l1))"
    by (rule entity_drop_server [OF assms(1-5)])
  have dup: "drop_mode l = SERVER_DUPLICATE \<Longrightarrow>
               ?l' = l2\<lparr>next_game_item_id := next_game_item_id l + of_nat (length ?es),
                        floor_items := drop_table rq' res ?es (next_game_item_id l) (floor_items l)\<rparr>"
    using server_drop_duplicate [OF _ assms(6,7)] f1 f2
    by (simp add: duplicate_loop_state)
  have sha: "drop_mode l = SERVER_SHARED \<Longrightarrow>
               ?l' = l2\<lparr>next_game_item_id := next_game_item_id l + 1,
                        floor_items := (floor_items l)((unat (rq_floor rq'), next_game_item_id l) \<mapsto>
                           dropped_item rq' res (next_game_item_id l) 0x00F)\<rparr>"
    using server_drop_shared [OF _ assms(6,7)] f1 f2
    by (simp add: shared_drop_state)
  have counters: "next_item_id_for_client ?l' = next_item_id_for_client l"
    using assms(2) dup sha f1 f2 by auto
  have d1: "floor_items ?l' (unat (rq_floor rq), next_game_item_id l + of_nat n) =
              Some (dropped_item rq res (next_game_item_id l + of_nat n) (push_bit (?S ! n) 1))"
    if m: "drop_mode l = SERVER_DUPLICATE" and n: "n < length ?S" for n
  proof -
    have "n < length ?es" using n len by simp
    from drop_table_lookup [OF this small, of rq' res "next_game_item_id l" "floor_items l"]
    have "floor_items ?l' (unat (rq_floor rq'), next_game_item_id l + of_nat n) =
            Some (dropped_item rq' res (next_game_item_id l + of_nat n)
                    (push_bit (lobby_client_id (?es ! n)) 1))"
      using dup [OF m] by simp
    moreover have "lobby_client_id (?es ! n) = ?S ! n"
      using slots \<open>n < length ?es\<close> by (metis nth_map)
    ultimately show ?thesis using keep di by simp
  qed
  have d2: "floor_items ?l' key = floor_items l key"
    if m: "drop_mode l = SERVER_DUPLICATE"
      and k: "key \<notin> (\<lambda>n. (unat (rq_floor rq), next_game_item_id l + of_nat n)) ` {..<length ?S}"
    for key
  proof -
    have "key \<notin> (\<lambda>n. (unat (rq_floor rq'), next_game_item_id l + of_nat n)) ` {..<length ?es}"
      using k keep len by simp
    from drop_table_frame [OF this, of res "floor_items l"] show ?thesis
      using dup [OF m] by simp
  qed
  have d3: "next_game_item_id ?l' = next_game_item_id l + of_nat (length ?S)"
    if m: "drop_mode l = SERVER_DUPLICATE"
    using dup [OF m] len by simp
  have s1: "floor_items ?l' = (floor_items l)((unat (rq_floor rq), next_game_item_id l) \<mapsto>
              dropped_item rq res (next_game_item_id l) 0x00F)
            \<and> next_game_item_id ?l' = next_game_item_id l + 1"
    if m: "drop_mode l = SERVER_SHARED"
    using sha [OF m] keep di by simp
  show ?thesis
    using run counters d1 d2 d3 s1 by blast
qed

lemma example_drop_facts:
  "game (example_lobby m GC_V3 example_four_players)"
  "drop_mode (example_lobby m GC_V3 example_four_players) = m"
  "read_drop_request example_drop_externals [] = Inr example_drop_request"
  "check_entity example_drop_externals (example_client 0 GC_V3)
     (example_lobby m GC_V3 example_four_players) example_drop_request =
     Inr (example_drop_request, 0xFF, [])"
  "mark_drop_checked (example_lobby m GC_V3 example_four_players)
     (rq_rt_index example_drop_request = 0x30) (unat (rq_entity_id example_drop_request)) =
     (True, example_lobby m GC_V3 example_four_players)"
  "generate_item example_drop_externals (example_lobby m GC_V3 example_four_players)
     example_drop_request 0xFF =
     (\<lparr>dr_item = example_weapon, is_from_rare_table = False\<rparr>,
      (example_lobby m GC_V3 example_four_players)\<lparr>item_creator_calls := Suc 0\<rparr>)"
  "\<not> item_empty example_drop_externals
       (dr_item \<lparr>dr_item = example_weapon, is_from_rare_table = False\<rparr>)"
  "length (clients (example_lobby m GC_V3 example_four_players)) \<le> 12"
  "next_game_item_id (example_lobby m GC_V3 example_four_players) = 0x00810000"
  by (simp_all add: example_lobby_def example_four_players_def read_drop_request_def
      example_drop_externals_def example_externals_def example_drop_request_def
      check_entity_def check_enemy_def mark_drop_checked_def generate_item_def
      example_weapon_def)

lemma example_drop_slots:
  "slots_consistent (example_lobby m GC_V3 example_four_players)"
  "eligible_slots example_drop_request (example_lobby m GC_V3 example_four_players) = [0, 1, 2, 3]"
  by (simp_all add: slots_consistent_def eligible_slots_def example_lobby_def
      example_four_players_def example_client_def client_at_def drop_eligible_def
      example_drop_request_def less_Suc_eq upt_rec [of 0] upt_rec [of 1] upt_rec [of 2]
      upt_rec [of 3] upt_rec [of 4])

theorem server_drop_creates_items_witness:
  "(\<exists>l'. fst (snd (on_entity_drop_item_request example_drop_externals (example_client 0 GC_V3)
                     (Some (example_lobby SERVER_DUPLICATE GC_V3 example_four_players)) 0x62 0 [])) =
             Some l'
          \<and> map (\<lambda>n. map_option visibility_flags (floor_items l' (2, 0x00810000 + of_nat n)))
              [0, 1, 2, 3] = [Some 1, Some 2, Some 4, Some 8]
          \<and> map (\<lambda>n. map_option (item_id \<circ> fi_data) (floor_items l' (2, 0x00810000 + of_nat n)))
              [0, 1, 2, 3] = [Some 0x00810000, Some 0x00810001, Some 0x00810002, Some 0x00810003]
          \<and> next_game_item_id l' = 0x00810004)
   \<and> (\<exists>l'. fst (snd (on_entity_drop_item_request example_drop_externals (example_client 0 GC_V3)
                     (Some (example_lobby SERVER_SHARED GC_V3 example_four_players)) 0x62 0 [])) =
             Some l'
          \<and> map_option visibility_flags (floor_items l' (2, 0x00810000)) = Some 0x00F
          \<and> next_game_item_id l' = 0x00810001)"
proof -
  let ?c = "example_client 0 GC_V3"
  let ?d = "example_lobby SERVER_DUPLICATE GC_V3 example_four_players"
  let ?s = "example_lobby SERVER_SHARED GC_V3 example_four_players"
  let ?rq = "example_drop_request"
  have fl: "unat (rq_floor ?rq) = 2" by (simp add: example_drop_request_def)
  from server_drop_creates_items [where l = ?d and ext = example_drop_externals and dat = "[]"
      and rq = ?rq and c = ?c
      and cmd = "0x62" and flg = 0,
      OF example_drop_facts(1) _ example_drop_facts(3-7) example_drop_slots(1)
         example_drop_facts(8)]
  obtain l' ev' where
    run: "on_entity_drop_item_request example_drop_externals ?c (Some ?d) 0x62 0 [] =
            (None, Some l', [] @ ev')"
    and items: "\<forall>n < 4. floor_items l' (2, 0x00810000 + of_nat n) =
                  Some (dropped_item ?rq \<lparr>dr_item = example_weapon, is_from_rare_table = False\<rparr>
                          (0x00810000 + of_nat n) (push_bit ([0, 1, 2, 3] ! n) 1))"
    and nxt: "next_game_item_id l' = 0x00810000 + of_nat 4"
    unfolding example_drop_slots(2) example_drop_facts(2) example_drop_facts(9) fl
    by auto
  have i0: "floor_items l' (2, 0x00810000 + of_nat 0) =
              Some (dropped_item ?rq \<lparr>dr_item = example_weapon, is_from_rare_table = False\<rparr>
                      (0x00810000 + of_nat 0) (push_bit ([0, 1, 2, 3] ! 0) 1))"
    by (rule items [rule_format]) simp
  have i1: "floor_items l' (2, 0x00810000 + of_nat 1) =
              Some (dropped_item ?rq \<lparr>dr_item = example_weapon, is_from_rare_table = False\<rparr>
                      (0x00810000 + of_nat 1) (push_bit ([0, 1, 2, 3] ! 1) 1))"
    by (rule items [rule_format]) simp
  have i2: "floor_items l' (2, 0x00810000 + of_nat 2) =
              Some (dropped_item ?rq \<lparr>dr_item = example_weapon, is_from_rare_table = False\<rparr>
                      (0x00810000 + of_nat 2) (push_bit ([0, 1, 2, 3] ! 2) 1))"
    by (rule items [rule_format]) simp
  have i3: "floor_items l' (2, 0x00810000 + of_nat 3) =
              Some (dropped_item ?rq \<lparr>dr_item = example_weapon, is_from_rare_table = False\<rparr>
                      (0x00810000 + of_nat 3) (push_bit ([0, 1, 2, 3] ! 3) 1))"
    by (rule items [rule_format]) simp
  have dup: "\<exists>l'. fst (snd (on_entity_drop_item_request example_drop_externals ?c (Some ?d) 0x62 0 [])) =
             Some l'
          \<and> map (\<lambda>n. map_option visibility_flags (floor_items l' (2, 0x00810000 + of_nat n)))
              [0, 1, 2, 3] = [Some 1, Some 2, Some 4, Some 8]
          \<and> map (\<lambda>n. map_option (item_id \<circ> fi_data) (floor_items l' (2, 0x00810000 + of_nat n)))
              [0, 1, 2, 3] = [Some 0x00810000, Some 0x00810001, Some 0x00810002, Some 0x00810003]
          \<and> next_game_item_id l' = 0x00810004"
    using run i0 i1 i2 i3 nxt by (simp add: dropped_item_def)
  from server_drop_creates_items [where l = ?s and ext = example_drop_externals and dat = "[]"
      and rq = ?rq and c = ?c
      and cmd = "0x62" and flg = 0,
      OF example_drop_facts(1) _ example_drop_facts(3-7) example_drop_slots(1)
         example_drop_facts(8)]
  obtain l'' ev'' where
    run': "on_entity_drop_item_request example_drop_externals ?c (Some ?s) 0x62 0 [] =
            (None, Some l'', [] @ ev'')"
    and item: "floor_items l'' = (\<lambda>k. None)((2, 0x00810000) \<mapsto>
                 dropped_item ?rq \<lparr>dr_item = example_weapon, is_from_rare_table = False\<rparr>
                   0x00810000 0x00F)"
    and nxt': "next_game_item_id l'' = 0x00810000 + 1"
    unfolding example_drop_slots(2) example_drop_facts(2) example_drop_facts(9) fl
    by (auto simp: example_lobby_def)
  have sha: "\<exists>l'. fst (snd (on_entity_drop_item_request example_drop_externals ?c (Some ?s) 0x62 0 [])) =
             Some l'
          \<and> map_option visibility_flags (floor_items l' (2, 0x00810000)) = Some 0x00F
          \<and> next_game_item_id l' = 0x00810001"
    using run' item nxt' by (simp add: dropped_item_def)
  show ?thesis using dup sha by blast
qed

section \<open>Properties of the inventory\<close>

lemma find_item_Some:
  "find_item xs i = Some k \<Longrightarrow> k < length xs \<and> item_id (xs ! k) = i"
proof (induction xs arbitrary: k)
  case Nil
  then show ?case by simp
next
  case (Cons x xs)
  then show ?case by (cases "item_id x = i") auto
qed

lemma find_stack_update:
  "k < length xs \<Longrightarrow> primary_identifier y = primary_identifier (xs ! k)
     \<Longrightarrow> find_stack (xs[k := y]) p = find_stack xs p"
proof (induction xs arbitrary: k)
  case Nil
  then show ?case by simp
next
  case (Cons x xs)
  then show ?case by (cases k) simp_all
qed

lemma primary_identifier_set_stack_count:
  "primary_identifier (set_stack_count it n) = primary_identifier it"
  by (simp add: primary_identifier_def set_stack_count_def)

lemma primary_identifier_item_id:
  "primary_identifier (it\<lparr>item_id := i\<rparr>) = primary_identifier it"
  by (simp add: primary_identifier_def)

lemma stack_count_less: "stack_count it < 256"
  using unsigned_less [of "data1 it ! 5", where ?'a = nat] by (simp add: stack_count_def)

lemma stack_count_set:
  "5 < length (data1 it) \<Longrightarrow> n < 256 \<Longrightarrow> stack_count (set_stack_count it n) = n"
  by (simp add: stack_count_def set_stack_count_def unat_of_nat)

lemma stack_count_item_id: "stack_count (it\<lparr>item_id := i\<rparr>) = stack_count it"
  by (simp add: stack_count_def)

lemma set_stack_count_twice:
  "set_stack_count (set_stack_count it m) n = set_stack_count it n"
  by (simp add: set_stack_count_def)

lemma set_stack_count_same: "set_stack_count it (stack_count it) = it"
  by (simp add: set_stack_count_def stack_count_def)

lemma remove_part:
  assumes "find_item inven i = Some k"
    and "1 < max_stack_size ext v (primary_identifier (inven ! k))"
    and "0 < a" and "a < stack_count (inven ! k)"
  shows "inventory_remove_item ext v inven i a =
           Inr ((set_stack_count (inven ! k) a)\<lparr>item_id := 0xFFFFFFFF\<rparr>,
                inven[k := set_stack_count (inven ! k) (stack_count (inven ! k) - a)])"
  using assms by (simp add: inventory_remove_item_def Let_def)

lemma add_part_back:
  assumes k: "k < length inven"
    and first: "find_stack inven (primary_identifier (inven ! k)) = Some k"
    and len: "5 < length (data1 (inven ! k))"
    and stackable: "1 < max_stack_size ext v (primary_identifier (inven ! k))"
    and fits: "stack_count (inven ! k) \<le> max_stack_size ext v (primary_identifier (inven ! k))"
    and a: "a < stack_count (inven ! k)"
  shows "inventory_add_item ext v
           (inven[k := set_stack_count (inven ! k) (stack_count (inven ! k) - a)])
           ((set_stack_count (inven ! k) a)\<lparr>item_id := i\<rparr>) = Inr inven"
proof -
  let ?it = "inven ! k"
  let ?rest = "inven[k := set_stack_count ?it (stack_count ?it - a)]"
  have small: "stack_count ?it < 256" by (rule stack_count_less)
  have found: "find_stack ?rest (primary_identifier ?it) = Some k"
    using find_stack_update [OF k, of "set_stack_count ?it (stack_count ?it - a)"] first
    by (simp add: primary_identifier_set_stack_count)
  have at: "?rest ! k = set_stack_count ?it (stack_count ?it - a)" using k by simp
  have c1: "stack_count (?rest ! k) = stack_count ?it - a"
    unfolding at using stack_count_set [OF len, of "stack_count ?it - a"] small by simp
  have c2: "stack_count ((set_stack_count ?it a)\<lparr>item_id := i\<rparr>) = a"
    using stack_count_set [OF len, of a] small a by (simp add: stack_count_item_id)
  have total: "stack_count (?rest ! k) + stack_count ((set_stack_count ?it a)\<lparr>item_id := i\<rparr>) =
               stack_count ?it"
    using c1 c2 a by simp
  have restored: "?rest[k := set_stack_count (?rest ! k) (stack_count ?it)] = inven"
    unfolding at by (simp add: set_stack_count_twice set_stack_count_same)
  show ?thesis
    using stackable found fits restored total
    by (simp add: inventory_add_item_def Let_def primary_identifier_item_id
        primary_identifier_set_stack_count)
qed

section \<open>Splitting a stack\<close>

lemma generate_participant_id:
  "k \<noteq> 0xFF \<Longrightarrow> k < length (next_item_id_for_client l) \<Longrightarrow>
     generate_item_id l k =
       (next_item_id_for_client l ! k,
        l\<lparr>next_item_id_for_client :=
             (next_item_id_for_client l)[k := next_item_id_for_client l ! k + 1]\<rparr>)"
  by (simp add: generate_item_id_def)

lemma forward_raises_nothing:
  assumes "cmd AND 0xF0 \<noteq> 0xC0" and "4 \<le> length dat" and "length dat \<le> 0xFFFF"
    and "\<not> is_pre_v1 (cversion c)"
  shows "fst (forward_subcommand c (Some l) cmd flg dat) = None"
  using assms
  by (simp add: forward_subcommand_def Let_def def_for_subcommand_final split: option.splits)

lemma split_stack_result:
  assumes "base_version l = BB_V4" and "game l"
    and "decode_split_stack ext dat = Some ss"
    and "ss_client_id ss = lobby_client_id c"
    and "lobby_client_id c \<noteq> 0xFF"
    and "lobby_client_id c < length (next_item_id_for_client l)"
    and "find_item inven (ss_item_id ss) = Some k"
    and "find_stack inven (primary_identifier (inven ! k)) = Some k"
    and "length (data1 (inven ! k)) = 12"
    and "1 < max_stack_size ext (cversion c) (primary_identifier (inven ! k))"
    and "stack_count (inven ! k) \<le> max_stack_size ext (cversion c) (primary_identifier (inven ! k))"
    and "0 < ss_amount ss" and "ss_amount ss < stack_count (inven ! k)"
  shows "on_drop_partial_stack_bb ext c inven (Some l) cmd flg dat =
           (None, inven,
            Some (l\<lparr>next_item_id_for_client :=
                      (next_item_id_for_client l)
                        [lobby_client_id c := next_item_id_for_client l ! lobby_client_id c + 1],
                    floor_items :=
                      (floor_items l)
                        ((ss_floor ss, next_item_id_for_client l ! lobby_client_id c) \<mapsto>
                         \<lparr>fi_data = (set_stack_count (inven ! k) (ss_amount ss))
                                      \<lparr>item_id := next_item_id_for_client l ! lobby_client_id c\<rparr>,
                          fi_x = ss_x ss, fi_z = ss_z ss, visibility_flags = 0x00F\<rparr>)\<rparr>),
            [SendDropStackedItemToLobby
               ((set_stack_count (inven ! k) (ss_amount ss))
                  \<lparr>item_id := next_item_id_for_client l ! lobby_client_id c\<rparr>)
               (ss_floor ss) (ss_x ss) (ss_z ss)])"
proof -
  have k: "k < length inven"
    using find_item_Some [OF assms(7)] by simp
  have len: "5 < length (data1 (inven ! k))" using assms(9) by simp
  have rem: "inventory_remove_item ext (cversion c) inven (ss_item_id ss) (ss_amount ss) =
               Inr ((set_stack_count (inven ! k) (ss_amount ss))\<lparr>item_id := 0xFFFFFFFF\<rparr>,
                    inven[k := set_stack_count (inven ! k) (stack_count (inven ! k) - ss_amount ss)])"
    by (rule remove_part [OF assms(7) assms(10) assms(12) assms(13)])
  have add: "inventory_add_item ext (cversion c)
               (inven[k := set_stack_count (inven ! k) (stack_count (inven ! k) - ss_amount ss)])
               ((set_stack_count (inven ! k) (ss_amount ss))
                  \<lparr>item_id := next_item_id_for_client l ! lobby_client_id c\<rparr>) = Inr inven"
    by (rule add_part_back [OF k assms(8) len assms(10) assms(11) assms(13)])
  show ?thesis
    using assms(1-4) rem add generate_participant_id [OF assms(5,6)]
    by (simp add: on_drop_partial_stack_bb_def require_lobby_def add_item_def add_floor_item_def)
qed

text \<open>
  Claim C5 (as amended). In a BB game, a participant splits the amount \<open>a\<close>
  off a stack of its inventory that holds more than \<open>a\<close>. The removal
  leaves the stack in the inventory under its identifier with \<open>a\<close> less,
  and returns the part under the identifier \<open>0xFFFFFFFF\<close>. The handler
  gives the part the next identifier of the progression of the participant
  that splits (that progression moves on by one; the progression of the server,
  addressed by the sentinel \<open>0xFF\<close>, stays as it was), adds the part back so
  that the inventory is what it was before the command, puts the part on the
  floor with the mask \<open>0x00F\<close>, raises no error, and tells the lobby of the
  dropped stack. The command 6x29 of the same participant for the same item and
  amount then removes the amount again: the handler raises no error, the
  inventory holds the stack under its identifier with \<open>a\<close> less, the lobby
  is unchanged, and the events are those of forwarding the command.
\<close>

theorem split_stack_then_delete:
  assumes "base_version l = BB_V4" and "game l"
    and "decode_split_stack ext dat = Some ss"
    and "ss_client_id ss = lobby_client_id c"
    and "lobby_client_id c \<noteq> 0xFF"
    and "lobby_client_id c < length (next_item_id_for_client l)"
    and "find_item inven (ss_item_id ss) = Some k"
    and "find_stack inven (primary_identifier (inven ! k)) = Some k"
    and "length (data1 (inven ! k)) = 12"
    and "1 < max_stack_size ext (cversion c) (primary_identifier (inven ! k))"
    and "stack_count (inven ! k) \<le> max_stack_size ext (cversion c) (primary_identifier (inven ! k))"
    and "0 < ss_amount ss" and "ss_amount ss < stack_count (inven ! k)"
    and "decode_delete_item ext dat' = Some di"
    and "di_client_id di = lobby_client_id c"
    and "di_item_id di = ss_item_id ss" and "di_amount di = ss_amount ss"
    and "cmd' AND 0xF0 \<noteq> 0xC0" and "4 \<le> length dat'" and "length dat' \<le> 0xFFFF"
    and "\<not> is_pre_v1 (cversion c)"
  shows
    "let a = ss_amount ss;
         new_id = next_item_id_for_client l ! lobby_client_id c;
         part = (set_stack_count (inven ! k) a)\<lparr>item_id := new_id\<rparr>;
         rest = inven[k := set_stack_count (inven ! k) (stack_count (inven ! k) - a)];
         l' = l\<lparr>next_item_id_for_client :=
                    (next_item_id_for_client l)[lobby_client_id c := new_id + 1],
                 floor_items := (floor_items l)((ss_floor ss, new_id) \<mapsto>
                    \<lparr>fi_data = part, fi_x = ss_x ss, fi_z = ss_z ss, visibility_flags = 0x00F\<rparr>)\<rparr>
     in inventory_remove_item ext (cversion c) inven (ss_item_id ss) a =
          Inr (part\<lparr>item_id := 0xFFFFFFFF\<rparr>, rest)
        \<and> item_id (rest ! k) = ss_item_id ss
        \<and> stack_count (rest ! k) = stack_count (inven ! k) - a
        \<and> stack_count part = a
        \<and> new_id = fst (generate_item_id l (lobby_client_id c))
        \<and> next_game_item_id l' = next_game_item_id l
        \<and> on_drop_partial_stack_bb ext c inven (Some l) cmd flg dat =
            (None, inven, Some l',
             [SendDropStackedItemToLobby part (ss_floor ss) (ss_x ss) (ss_z ss)])
        \<and> on_destroy_inventory_item ext c inven (Some l') cmd' flg' dat' =
            (None, rest, Some l', snd (forward_subcommand c (Some l') cmd' flg' dat'))"
proof -
  let ?it = "inven ! k"
  let ?a = "ss_amount ss"
  let ?v = "cversion c"
  let ?new = "next_item_id_for_client l ! lobby_client_id c"
  let ?part = "(set_stack_count ?it ?a)\<lparr>item_id := ?new\<rparr>"
  let ?rest = "inven[k := set_stack_count ?it (stack_count ?it - ?a)]"
  let ?l' = "l\<lparr>next_item_id_for_client :=
                  (next_item_id_for_client l)[lobby_client_id c := ?new + 1],
               floor_items := (floor_items l)((ss_floor ss, ?new) \<mapsto>
                  \<lparr>fi_data = ?part, fi_x = ss_x ss, fi_z = ss_z ss, visibility_flags = 0x00F\<rparr>)\<rparr>"
  have k: "k < length inven" and idk: "item_id ?it = ss_item_id ss"
    using find_item_Some [OF assms(7)] by simp_all
  have len: "5 < length (data1 ?it)" using assms(9) by simp
  have small: "stack_count ?it < 256" by (rule stack_count_less)
  have rem: "inventory_remove_item ext ?v inven (ss_item_id ss) ?a =
               Inr ((set_stack_count ?it ?a)\<lparr>item_id := 0xFFFFFFFF\<rparr>, ?rest)"
    by (rule remove_part [OF assms(7) assms(10) assms(12) assms(13)])
  have r1: "item_id (?rest ! k) = ss_item_id ss"
    using k idk by (simp add: set_stack_count_def)
  have r2: "stack_count (?rest ! k) = stack_count ?it - ?a"
    using k stack_count_set [OF len, of "stack_count ?it - ?a"] small by simp
  have r3: "stack_count ?part = ?a"
    using stack_count_set [OF len, of ?a] small assms(13) by (simp add: stack_count_item_id)
  have r4: "?new = fst (generate_item_id l (lobby_client_id c))"
    by (simp add: generate_participant_id [OF assms(5,6)])
  have run: "on_drop_partial_stack_bb ext c inven (Some l) cmd flg dat =
                 (None, inven, Some ?l',
                  [SendDropStackedItemToLobby ?part (ss_floor ss) (ss_x ss) (ss_z ss)])"
    by (rule split_stack_result [OF assms(1-13)])
  have rem2: "inventory_remove_item ext ?v inven (di_item_id di) (di_amount di) =
               Inr ((set_stack_count ?it ?a)\<lparr>item_id := 0xFFFFFFFF\<rparr>, ?rest)"
    using rem assms(16,17) by simp
  have quiet: "fst (forward_subcommand c (Some ?l') cmd' flg' dat') = None"
    by (rule forward_raises_nothing [OF assms(18-21)])
  have del: "on_destroy_inventory_item ext c inven (Some ?l') cmd' flg' dat' =
               (None, ?rest, Some ?l', snd (forward_subcommand c (Some ?l') cmd' flg' dat'))"
    using assms(2,14,15) rem2 quiet
    by (simp add: on_destroy_inventory_item_def require_lobby_def split_def)
  show ?thesis
    unfolding Let_def using rem r1 r2 r3 r4 run del by simp
qed

lemma example_split_facts:
  "base_version example_bb_game = BB_V4"
  "game example_bb_game"
  "decode_split_stack example_bb_externals example_split_data = Some example_split"
  "ss_client_id example_split = lobby_client_id (example_client 0 BB_V4)"
  "lobby_client_id (example_client 0 BB_V4) \<noteq> 0xFF"
  "lobby_client_id (example_client 0 BB_V4) < length (next_item_id_for_client example_bb_game)"
  "find_item example_inventory (ss_item_id example_split) = Some 1"
  "find_stack example_inventory (primary_identifier (example_inventory ! 1)) = Some 1"
  "length (data1 (example_inventory ! 1)) = 12"
  "1 < max_stack_size example_bb_externals (cversion (example_client 0 BB_V4))
         (primary_identifier (example_inventory ! 1))"
  "stack_count (example_inventory ! 1)
     \<le> max_stack_size example_bb_externals (cversion (example_client 0 BB_V4))
          (primary_identifier (example_inventory ! 1))"
  "0 < ss_amount example_split"
  "ss_amount example_split < stack_count (example_inventory ! 1)"
  by (simp_all add: example_bb_game_def example_lobby_def example_client_def
      example_bb_externals_def example_externals_def example_split_def example_inventory_def
      example_item_def example_weapon_def primary_identifier_def stack_count_def)

lemma example_delete_facts:
  "decode_delete_item example_bb_externals example_delete_data = Some example_delete"
  "di_client_id example_delete = lobby_client_id (example_client 0 BB_V4)"
  "di_item_id example_delete = ss_item_id example_split"
  "di_amount example_delete = ss_amount example_split"
  "(0x60 :: byte) AND 0xF0 \<noteq> 0xC0"
  "4 \<le> length example_delete_data"
  "length example_delete_data \<le> 0xFFFF"
  "\<not> is_pre_v1 (cversion (example_client 0 BB_V4))"
  by (simp_all add: example_bb_externals_def example_externals_def example_delete_def
      example_split_def example_client_def example_delete_data_def is_pre_v1_def)

lemma example_split_values:
  "ss_amount example_split = 3"
  "ss_floor example_split = 2"
  "ss_x example_split = 0x42C80000"
  "ss_z example_split = 0x43480000"
  "(set_stack_count (example_inventory ! 1) 3)
     \<lparr>item_id := next_item_id_for_client example_bb_game
                    ! lobby_client_id (example_client 0 BB_V4)\<rparr> = example_split_part"
  "example_inventory[1 := set_stack_count (example_inventory ! 1)
                            (stack_count (example_inventory ! 1) - 3)] =
     [example_weapon,
      example_item\<lparr>data1 := [0x03, 0x00, 0x00, 0x00, 0x00, 0x07, 0, 0, 0, 0, 0, 0]\<rparr>]"
  by (simp_all add: example_split_def example_inventory_def example_item_def example_weapon_def
      set_stack_count_def stack_count_def example_bb_game_def example_lobby_def
      example_client_def example_split_part_def)

lemma example_split_lobby:
  "example_bb_game\<lparr>
     next_item_id_for_client :=
       (next_item_id_for_client example_bb_game)
         [lobby_client_id (example_client 0 BB_V4) :=
            next_item_id_for_client example_bb_game ! lobby_client_id (example_client 0 BB_V4) + 1],
     floor_items :=
       (floor_items example_bb_game)
         ((2, next_item_id_for_client example_bb_game ! lobby_client_id (example_client 0 BB_V4))
            \<mapsto> \<lparr>fi_data = example_split_part, fi_x = 0x42C80000, fi_z = 0x43480000,
                    visibility_flags = 0x00F\<rparr>)\<rparr> = example_bb_game_split"
  by (simp add: example_bb_game_split_def example_bb_game_def example_lobby_def
      example_client_def)

lemma example_delete_forward:
  "forward_subcommand (example_client 0 BB_V4) (Some example_bb_game_split) 0x60 0
     example_delete_data =
     (None, [SendCommand 101 0x60 0 example_delete_data])"
  by (simp add: forward_subcommand_def Let_def def_for_subcommand_final is_pre_v1_def
      is_ep3_def command_is_private_def example_bb_game_split_def example_bb_game_def
      example_lobby_def example_client_def example_delete_data_def send_to_each_def
      send_to_client_def translate_for_def)

text \<open>
  The theorem in a BB game of two clients: the client of slot 0 holds a weapon
  and a stack of ten of a tool under the identifier \<open>0x00AB0005\<close>, and
  splits three off it. The inventory after the 6xC3 is the one before; the
  part lies on floor 2 under \<open>0x00010000\<close>; the 6x29 leaves seven in the
  stack and goes to the client of slot 1.
\<close>

theorem split_stack_then_delete_witness:
  "on_drop_partial_stack_bb example_bb_externals (example_client 0 BB_V4) example_inventory
     (Some example_bb_game) 0x60 0 example_split_data =
     (None, example_inventory, Some example_bb_game_split,
      [SendDropStackedItemToLobby example_split_part 2 0x42C80000 0x43480000]) \<and>
   on_destroy_inventory_item example_bb_externals (example_client 0 BB_V4) example_inventory
     (Some example_bb_game_split) 0x60 0 example_delete_data =
     (None,
      [example_weapon,
       example_item\<lparr>data1 := [0x03, 0x00, 0x00, 0x00, 0x00, 0x07, 0, 0, 0, 0, 0, 0]\<rparr>],
      Some example_bb_game_split,
      [SendCommand 101 0x60 0 example_delete_data])"
proof -
  note t = split_stack_then_delete [OF example_split_facts example_delete_facts,
      where cmd = "0x60" and flg = 0 and flg' = 0, unfolded Let_def]
  note t' = t [unfolded example_split_values example_split_lobby]
  note s = t' [THEN conjunct2, THEN conjunct2, THEN conjunct2, THEN conjunct2, THEN conjunct2,
               THEN conjunct2, THEN conjunct1]
  note d = t' [THEN conjunct2, THEN conjunct2, THEN conjunct2, THEN conjunct2, THEN conjunct2,
               THEN conjunct2, THEN conjunct2]
  show ?thesis
    using s d by (simp add: example_delete_forward)
qed

text \<open>
  The claim as it was written fails on the progression that the new identifier
  is taken from. In the same run the progression of the server stands at
  \<open>0x00810000\<close> before and after the split and nothing is stored under
  that identifier; the floor stack lies under \<open>0x00010000\<close>, the next
  identifier of slot 0, whose progression has moved on.
\<close>

theorem split_stack_then_delete_counterexample:
  "on_drop_partial_stack_bb example_bb_externals (example_client 0 BB_V4) example_inventory
     (Some example_bb_game) 0x60 0 example_split_data =
     (None, example_inventory, Some example_bb_game_split,
      [SendDropStackedItemToLobby example_split_part 2 0x42C80000 0x43480000]) \<and>
   fst (generate_item_id example_bb_game 0xFF) = 0x00810000 \<and>
   fst (generate_item_id example_bb_game_split 0xFF) = 0x00810000 \<and>
   floor_items example_bb_game_split (2, 0x00810000) = None \<and>
   map_option (item_id \<circ> fi_data) (floor_items example_bb_game_split (2, 0x00010000)) =
     Some 0x00010000 \<and>
   fst (generate_item_id example_bb_game 0) = 0x00010000 \<and>
   fst (generate_item_id example_bb_game_split 0) = 0x00010001"
proof -
  have run: "on_drop_partial_stack_bb example_bb_externals (example_client 0 BB_V4)
               example_inventory (Some example_bb_game) 0x60 0 example_split_data =
             (None, example_inventory, Some example_bb_game_split,
              [SendDropStackedItemToLobby example_split_part 2 0x42C80000 0x43480000])"
    using split_stack_result [OF example_split_facts, where cmd = "0x60" and flg = 0]
    unfolding example_split_values example_split_lobby .
  have ids: "fst (generate_item_id example_bb_game 0xFF) = 0x00810000"
    "fst (generate_item_id example_bb_game_split 0xFF) = 0x00810000"
    "floor_items example_bb_game_split (2, 0x00810000) = None"
    "map_option (item_id \<circ> fi_data) (floor_items example_bb_game_split (2, 0x00010000)) =
       Some 0x00010000"
    "fst (generate_item_id example_bb_game 0) = 0x00010000"
    "fst (generate_item_id example_bb_game_split 0) = 0x00010001"
    by (simp_all add: generate_item_id_def example_bb_game_split_def example_bb_game_def
        example_lobby_def example_split_part_def)
  from run ids show ?thesis by simp
qed

end
